theory Spec2Isabelle
  imports Main
begin

section \<open>Python strings\<close>

text \<open>
  A Python \<open>str\<close> is modelled as an Isabelle \<open>string\<close>: a list of characters, each
  read as the code point of the same number (U+0000 to U+00FF). The character classes
  below are the ones Python uses on that range: \<open>str.isspace\<close> and the pattern class
  \<open>\s\<close> agree, \<open>str.isdigit\<close> also accepts the superscript digits, \<open>\d\<close> only the
  decimal digits, \<open>\w\<close> every alphanumeric character and the underscore.
\<close>

definition in_range :: "nat \<Rightarrow> nat \<Rightarrow> char \<Rightarrow> bool" where
  "in_range lo hi c = (lo \<le> of_char c \<and> (of_char c :: nat) \<le> hi)"

definition isspace :: "char \<Rightarrow> bool" where
  "isspace c = (in_range 9 13 c \<or> in_range 28 32 c \<or> in_range 133 133 c \<or> in_range 160 160 c)"

definition ascii_digit :: "char \<Rightarrow> bool" where
  "ascii_digit c = in_range 48 57 c"

definition ascii_upper :: "char \<Rightarrow> bool" where
  "ascii_upper c = in_range 65 90 c"

definition ascii_lower :: "char \<Rightarrow> bool" where
  "ascii_lower c = in_range 97 122 c"

definition isdigit :: "char \<Rightarrow> bool" where
  "isdigit c = (ascii_digit c \<or> in_range 178 179 c \<or> in_range 185 185 c)"

definition isalpha :: "char \<Rightarrow> bool" where
  "isalpha c = (ascii_upper c \<or> ascii_lower c \<or> in_range 170 170 c \<or> in_range 181 181 c \<or>
     in_range 186 186 c \<or> in_range 192 214 c \<or> in_range 216 246 c \<or> in_range 248 255 c)"

definition isalnum :: "char \<Rightarrow> bool" where
  "isalnum c = (isalpha c \<or> isdigit c \<or> in_range 188 190 c)"

text \<open>\<open>str.lower\<close>: the upper-case letters of the range move up by 32.\<close>

definition lower_char :: "char \<Rightarrow> char" where
  "lower_char c =
     (if ascii_upper c \<or> in_range 192 214 c \<or> in_range 216 222 c
      then char_of (of_char c + (32 :: nat)) else c)"

definition lower :: "string \<Rightarrow> string" where
  "lower s = map lower_char s"

text \<open>
  \<open>text.upper() != text\<close>: \<open>str.upper\<close> changes exactly the characters that have an
  upper-case form (for some of them the form lies outside the range, or is two characters
  long), so the comparison holds when the text contains one of them.
\<close>

definition upper_changes :: "char \<Rightarrow> bool" where
  "upper_changes c = (ascii_lower c \<or> in_range 181 181 c \<or> in_range 223 246 c \<or> in_range 248 255 c)"

definition upper_differs :: "string \<Rightarrow> bool" where
  "upper_differs s = list_ex upper_changes s"

text \<open>\<open>s.startswith(p)\<close>, \<open>sub in s\<close>, \<open>s.count(c)\<close> for a one-character \<open>c\<close>, \<open>s.strip()\<close>.\<close>

definition startswith :: "string \<Rightarrow> string \<Rightarrow> bool" where
  "startswith s p = (take (length p) s = p)"

fun py_in :: "string \<Rightarrow> string \<Rightarrow> bool" where
  "py_in sub [] = (sub = [])"
| "py_in sub (c # cs) = (startswith (c # cs) sub \<or> py_in sub cs)"

definition count_char :: "char \<Rightarrow> string \<Rightarrow> nat" where
  "count_char c s = length (filter (\<lambda>x. x = c) s)"

definition dollars :: "string \<Rightarrow> nat" where
  "dollars s = count_char CHR ''$'' s"

definition strip :: "string \<Rightarrow> string" where
  "strip s = rev (dropWhile isspace (rev (dropWhile isspace s)))"

text \<open>
  \<open>s.split(sep, 1)\<close> for a separator that occurs in \<open>s\<close>: the text before the first
  occurrence and the text after it; \<open>None\<close> when \<open>sep\<close> does not occur (Python then
  returns the one-element list \<open>[s]\<close>).
\<close>

fun split_once :: "string \<Rightarrow> string \<Rightarrow> (string \<times> string) option" where
  "split_once sep [] = (if sep = [] then Some ([], []) else None)"
| "split_once sep (c # cs) =
     (if startswith (c # cs) sep then Some ([], drop (length sep) (c # cs))
      else (case split_once sep cs of
              None \<Rightarrow> None
            | Some (a, b) \<Rightarrow> Some (c # a, b)))"

text \<open>\<open>s.split(c)\<close> for a one-character separator: every piece, never an empty list.\<close>

fun split_on :: "char \<Rightarrow> string \<Rightarrow> string list" where
  "split_on c [] = [[]]"
| "split_on c (x # xs) =
     (if x = c then [] # split_on c xs
      else (case split_on c xs of
              p # ps \<Rightarrow> (x # p) # ps
            | [] \<Rightarrow> [[x]]))"

text \<open>\<open>s.replace(old, "")\<close> for a non-empty \<open>old\<close>: every occurrence, left to right.\<close>

function remove_all :: "string \<Rightarrow> string \<Rightarrow> string" where
  "remove_all old [] = []"
| "remove_all old (c # cs) =
     (if old \<noteq> [] \<and> startswith (c # cs) old
      then remove_all old (drop (length old) (c # cs))
      else c # remove_all old cs)"
  by pat_completeness auto
termination
  by (relation "measure (\<lambda>(old, s). length s)") (auto simp: startswith_def)

text \<open>\<open>max(xs, key=len)\<close> on a non-empty list: the first element of greatest length.\<close>

fun max_by_len :: "string \<Rightarrow> string list \<Rightarrow> string" where
  "max_by_len best [] = best"
| "max_by_len best (x # xs) = max_by_len (if length best < length x then x else best) xs"

section \<open>Regular expressions\<close>

text \<open>
  The fragment of Python's \<open>re\<close> syntax that the patterns of the program use: literal
  text, one character of a class, a greedy \<open>*\<close> or \<open>+\<close> over a class, a greedy optional
  group, concatenation, and one capturing group. \<open>rmatch r s\<close> lists the ways \<open>r\<close>
  matches a prefix of \<open>s\<close>, in the order a backtracking matcher tries them (longest
  repetition first, the optional part present first): each is the matched text, the text
  of the capturing group when it took part, and the rest of \<open>s\<close>.
\<close>

datatype regex =
    Str string
  | One "char \<Rightarrow> bool"
  | Many "char \<Rightarrow> bool"
  | Many1 "char \<Rightarrow> bool"
  | Opt regex
  | Seq regex regex
  | Grp regex

type_synonym rmatch_result = "string \<times> string option \<times> string"

definition repeats :: "nat \<Rightarrow> (char \<Rightarrow> bool) \<Rightarrow> string \<Rightarrow> rmatch_result list" where
  "repeats least p s =
     map (\<lambda>n. (take n s, None, drop n s)) (rev [least ..< Suc (length (takeWhile p s))])"

fun rmatch :: "regex \<Rightarrow> string \<Rightarrow> rmatch_result list" where
  "rmatch (Str t) s = (if startswith s t then [(t, None, drop (length t) s)] else [])"
| "rmatch (One p) s =
     (case s of [] \<Rightarrow> [] | c # cs \<Rightarrow> if p c then [([c], None, cs)] else [])"
| "rmatch (Many p) s = repeats 0 p s"
| "rmatch (Many1 p) s = repeats 1 p s"
| "rmatch (Opt r) s = rmatch r s @ [([], None, s)]"
| "rmatch (Seq a b) s =
     concat (map (\<lambda>(m1, g1, r1).
       map (\<lambda>(m2, g2, r2). (m1 @ m2, (case g2 of None \<Rightarrow> g1 | Some g \<Rightarrow> Some g), r2))
         (rmatch b r1)) (rmatch a s))"
| "rmatch (Grp r) s = map (\<lambda>(m, g, rest). (m, Some m, rest)) (rmatch r s)"

text \<open>
  \<open>re.search\<close>: the first way to match at the leftmost position that has one. The
  result holds \<open>group(0)\<close> and \<open>group(1)\<close>.
\<close>

fun re_search :: "regex \<Rightarrow> string \<Rightarrow> (string \<times> string option) option" where
  "re_search r [] = (case rmatch r [] of [] \<Rightarrow> None | (m, g, _) # _ \<Rightarrow> Some (m, g))"
| "re_search r (c # cs) =
     (case rmatch r (c # cs) of [] \<Rightarrow> re_search r cs | (m, g, _) # _ \<Rightarrow> Some (m, g))"

fun seqs :: "regex list \<Rightarrow> regex" where
  "seqs [] = Str []"
| "seqs [r] = r"
| "seqs (r # rs) = Seq r (seqs rs)"

text \<open>The classes of the patterns: \<open>\d\<close>, \<open>\s\<close>, \<open>\w\<close>, \<open>.\<close>, and the bracket classes.\<close>

definition re_d :: "char \<Rightarrow> bool" where
  "re_d c = ascii_digit c"

definition re_s :: "char \<Rightarrow> bool" where
  "re_s c = isspace c"

definition re_w :: "char \<Rightarrow> bool" where
  "re_w c = (isalnum c \<or> c = CHR ''_'')"

definition re_dot :: "char \<Rightarrow> bool" where
  "re_dot c = (c \<noteq> CHR 0x0A)"

definition re_alnum :: "char \<Rightarrow> bool" where
  "re_alnum c = (ascii_lower c \<or> ascii_upper c \<or> ascii_digit c)"

definition re_alnum_dash :: "char \<Rightarrow> bool" where
  "re_alnum_dash c = (re_alnum c \<or> c = CHR ''_'' \<or> c = CHR ''-'')"

section \<open>The URL patterns\<close>

text \<open>Every pattern starts with \<open>https?://\<close>, all but the last go on with \<open>(?:www\.)?\<close>.\<close>

definition http :: "regex list" where
  "http = [Str ''http'', Opt (Str ''s''), Str ''://'']"

definition www :: "regex list" where
  "www = http @ [Opt (Str ''www.'')]"

definition FB_PATTERNS :: "regex list" where
  "FB_PATTERNS =
    [seqs (www @ [Str ''facebook.com/marketplace/item/'', Many1 re_d]),
     seqs (www @ [Str ''facebook.com/marketplace/item.php?id='', Many1 re_d]),
     seqs (www @ [Str ''fb.com/marketplace/item/'', Many1 re_d]),
     seqs (www @ [Str ''facebook.com/share/'', Many1 re_alnum]),
     seqs (www @ [Str ''facebook.com/share/'', Many1 re_alnum, Opt (Str ''/''),
                  Opt (Seq (Str ''?'') (Many re_dot))]),
     seqs (www @ [Str ''facebook.com/'', Many1 (\<lambda>c. c \<noteq> CHR ''/''), Str ''/posts/'',
                  Many1 re_alnum]),
     seqs (www @ [Str ''fb.watch/'', Many1 re_alnum_dash, Opt (Str ''/'')]),
     seqs (www @ [Str ''fb.me/'', Many1 re_alnum_dash]),
     seqs (http @ [Str ''m.facebook.com/'', Many1 (\<lambda>c. \<not> re_s c)])]"

text \<open>
  The loop of \<open>on_message\<close> over \<open>FB_PATTERNS\<close>: the first pattern, in list order, that
  \<open>re.search\<close> finds in the message gives \<open>fb_url\<close>; \<open>None\<close> when no pattern is found.
\<close>

fun first_match :: "regex list \<Rightarrow> string \<Rightarrow> string option" where
  "first_match [] content = None"
| "first_match (pattern # patterns) content =
     (case re_search pattern content of
        Some (m, g) \<Rightarrow> Some m
      | None \<Rightarrow> first_match patterns content)"

definition find_fb_url :: "string \<Rightarrow> string option" where
  "find_fb_url content = first_match FB_PATTERNS content"

section \<open>The browser session\<close>

text \<open>
  The browser is outside the program. A call into it returns a value or raises; the
  result of a call is modelled as a sum, \<open>Inl\<close> the exception raised. An exception has
  its class and the text \<open>str(e)\<close> gives.
\<close>

datatype exn_class =
    TimeoutException
  | NoSuchElementException
  | StaleElementReferenceException
  | WebDriverException
  | ValueError
  | IndexError
  | AttributeError

datatype exn = Exn (exn_class: exn_class) (str_of: string)

datatype locator = CSS_SELECTOR | XPATH | TAG_NAME

text \<open>
  A \<open>WebElement\<close> as the program observes it: its \<open>text\<close> property, \<open>get_attribute\<close>
  (\<open>None\<close> for an absent attribute) and \<open>find_elements\<close>. The document a driver shows
  is observed through the same \<open>find_elements\<close>, so it is an element too.
\<close>

datatype element = Element
  (text_of: "exn + string")
  (get_attribute: "string \<Rightarrow> exn + string option")
  (find_elements: "locator \<Rightarrow> string \<Rightarrow> exn + element list")

text \<open>
  \<open>find_element\<close>: the first element found; none raises \<open>NoSuchElementException\<close>
  (the text below stands for the message of the driver).
\<close>

definition find_element :: "element \<Rightarrow> locator \<Rightarrow> string \<Rightarrow> exn + element" where
  "find_element e how v =
     (case find_elements e how v of
        Inl x \<Rightarrow> Inl x
      | Inr [] \<Rightarrow> Inl (Exn NoSuchElementException (''no such element: '' @ v))
      | Inr (found # _) \<Rightarrow> Inr found)"

definition bind_exn :: "exn + 'a \<Rightarrow> ('a \<Rightarrow> exn + 'b) \<Rightarrow> exn + 'b" where
  "bind_exn r f = (case r of Inl x \<Rightarrow> Inl x | Inr v \<Rightarrow> f v)"

text \<open>\<open>element.text.strip()\<close>\<close>

definition stripped_text :: "element \<Rightarrow> exn + string" where
  "stripped_text e = bind_exn (text_of e) (\<lambda>raw. Inr (strip raw))"

subsection \<open>The loops of the extractors\<close>

text \<open>
  \<open>for element in elements: ... return\<close> inside a \<open>try\<close>: the body \<open>f\<close> returns a
  value (\<open>Some\<close>), goes on to the next element (\<open>None\<close>) or raises, which leaves the loop.
\<close>

fun first_accepted :: "(element \<Rightarrow> exn + 'a option) \<Rightarrow> element list \<Rightarrow> exn + 'a option" where
  "first_accepted f [] = Inr None"
| "first_accepted f (e # es) =
     (case f e of
        Inl x \<Rightarrow> Inl x
      | Inr (Some v) \<Rightarrow> Inr (Some v)
      | Inr None \<Rightarrow> first_accepted f es)"

text \<open>
  \<open>for selector in selectors: try: elements = container.find_elements(By.CSS_SELECTOR,
  selector); for element in elements: ... except Exception: continue\<close>: an exception
  raised by the lookup or by the body at some element abandons that selector's elements
  and goes on with the next selector.
\<close>

fun try_selectors :: "(element \<Rightarrow> exn + 'a option) \<Rightarrow> element \<Rightarrow> string list \<Rightarrow> 'a option" where
  "try_selectors f container [] = None"
| "try_selectors f container (selector # selectors) =
     (case bind_exn (find_elements container CSS_SELECTOR selector) (first_accepted f) of
        Inr (Some v) \<Rightarrow> Some v
      | Inr None \<Rightarrow> try_selectors f container selectors
      | Inl x \<Rightarrow> try_selectors f container selectors)"

text \<open>
  The same loop with the \<open>try\<close> inside the body: an exception at one element goes on
  with the next element.
\<close>

fun first_accepted_skipping :: "(element \<Rightarrow> exn + 'a option) \<Rightarrow> element list \<Rightarrow> 'a option" where
  "first_accepted_skipping f [] = None"
| "first_accepted_skipping f (e # es) =
     (case f e of
        Inr (Some v) \<Rightarrow> Some v
      | Inr None \<Rightarrow> first_accepted_skipping f es
      | Inl x \<Rightarrow> first_accepted_skipping f es)"

section \<open>find_main_listing_container\<close>

definition container_selectors :: "string list" where
  "container_selectors =
    [''[data-testid='marketplace_pdp_container']'',
     ''[data-pagelet='MarketplacePermalinkRoot']'',
     ''div[role='main']'',
     ''div.x1qjc9v5.x78zum5.x1q0g3np'',
     ''.xrvj5dj.x1gslohp'',
     ''.x78zum5.xdt5ytf'']"

definition heading_selector :: string where
  "heading_selector = ''h1, [role='heading'], span.x193iq5w''"

definition dollar_xpath :: string where
  "dollar_xpath = ''.//*[contains(text(), '$')]''"

text \<open>
  The body of the loop over \<open>containers\<close>: both lookups run, \<open>has_title\<close> first, and
  the container is returned when both found something.
\<close>

definition has_title_and_price :: "element \<Rightarrow> exn + bool" where
  "has_title_and_price container =
     bind_exn (find_elements container CSS_SELECTOR heading_selector) (\<lambda>headings.
     bind_exn (find_elements container XPATH dollar_xpath) (\<lambda>priced.
       Inr (0 < length headings \<and> 0 < length priced)))"

definition listing_container :: "element \<Rightarrow> exn + element option" where
  "listing_container container =
     bind_exn (has_title_and_price container) (\<lambda>both.
       Inr (if both then Some container else None))"

definition find_main_listing_container :: "element \<Rightarrow> exn + element" where
  "find_main_listing_container driver_page =
     (case try_selectors listing_container driver_page container_selectors of
        Some container \<Rightarrow> Inr container
      | None \<Rightarrow> find_element driver_page TAG_NAME ''body'')"

section \<open>extract_title_from_container\<close>

definition title_selectors :: "string list" where
  "title_selectors =
    [''h1'',
     ''[role='heading']'',
     ''[data-testid='marketplace-listing-item-title']'',
     ''[data-testid='marketplace_pdp_title']'',
     ''.x1heor9g'',
     ''span.x193iq5w'',
     ''.xt0psk2'']"

definition title_candidate :: "element \<Rightarrow> exn + string option" where
  "title_candidate element =
     bind_exn (stripped_text element) (\<lambda>text.
       Inr (if text \<noteq> [] \<and> 5 < length text \<and> length text < 100 \<and>
               \<not> startswith text ''Browse'' \<and> \<not> py_in ''Create new listing'' text \<and>
               dollars text \<le> 1 \<and> \<not> py_in ''similar'' (lower text)
            then Some text else None))"

definition title_fallback_candidate :: "element \<Rightarrow> exn + string option" where
  "title_fallback_candidate element =
     bind_exn (stripped_text element) (\<lambda>text.
       Inr (if text \<noteq> [] \<and> 10 < length text \<and> length text < 100 \<and>
               upper_differs text \<and> dollars text \<le> 1
            then Some text else None))"

definition extract_title_from_container :: "element \<Rightarrow> string" where
  "extract_title_from_container container =
     (case try_selectors title_candidate container title_selectors of
        Some text \<Rightarrow> text
      | None \<Rightarrow>
          (case bind_exn (find_elements container CSS_SELECTOR ''div[dir='auto']'')
                  (first_accepted title_fallback_candidate) of
             Inr (Some text) \<Rightarrow> text
           | Inr None \<Rightarrow> ''Title not found''
           | Inl x \<Rightarrow> ''Title not found''))"

section \<open>extract_price_from_container\<close>

definition price_selectors :: "string list" where
  "price_selectors =
    [''[data-testid='marketplace_pdp_price']'',
     ''span.x193iq5w'',
     ''.x1j85h84'',
     ''h1 + span'',
     ''.x1fcty0u span'']"

text \<open>The pattern \<^verbatim>\<open>\$\s*[\d,]+(?:\.\d{2})?\<close>.\<close>

definition price_pattern :: regex where
  "price_pattern =
     seqs [Str ''$'', Many re_s, Many1 (\<lambda>c. re_d c \<or> c = CHR '',''),
           Opt (seqs [Str ''.'', One re_d, One re_d])]"

text \<open>
  \<open>parent_text\<close>: the text of the parent element, the empty string when the parent
  lookup or its \<open>text\<close> raises.
\<close>

definition parent_text :: "element \<Rightarrow> string" where
  "parent_text element =
     (case bind_exn (find_element element XPATH ''./..'') text_of of
        Inl x \<Rightarrow> []
      | Inr t \<Rightarrow> t)"

definition price_candidate :: "element \<Rightarrow> exn + string option" where
  "price_candidate element =
     bind_exn (stripped_text element) (\<lambda>text.
       Inr (if py_in ''$'' text \<and> list_ex isdigit text then
              (if dollars (parent_text element) \<le> 1 then
                 (if 15 < length text then
                    (case re_search price_pattern text of
                       Some (m, g) \<Rightarrow> Some (strip m)
                     | None \<Rightarrow> Some text)
                  else Some text)
               else None)
            else None))"

definition price_fallback_candidate :: "element \<Rightarrow> exn + string option" where
  "price_fallback_candidate element =
     bind_exn (stripped_text element) (\<lambda>text.
       Inr (if py_in ''$'' text \<and> list_ex isdigit text \<and> length text < 30 \<and> dollars text = 1
            then (case re_search price_pattern text of
                    Some (m, g) \<Rightarrow> Some (strip m)
                  | None \<Rightarrow> Some text)
            else None))"

definition extract_price_from_container :: "element \<Rightarrow> string" where
  "extract_price_from_container container =
     (case try_selectors price_candidate container price_selectors of
        Some text \<Rightarrow> text
      | None \<Rightarrow>
          (case bind_exn (find_elements container XPATH dollar_xpath)
                  (first_accepted price_fallback_candidate) of
             Inr (Some text) \<Rightarrow> text
           | Inr None \<Rightarrow> ''Price not found''
           | Inl x \<Rightarrow> ''Price not found''))"

section \<open>extract_location_from_container\<close>

definition location_selectors :: "string list" where
  "location_selectors =
    [''[data-testid='marketplace_pdp_location']'',
     ''div.x1xmf6yo'',
     ''.x1e56ztr'',
     ''.x1lliihq'']"

text \<open>
  \<open>text.split(":", 1)[1]\<close> raises \<open>IndexError\<close> when the split has one piece;
  \<open>text.split(phrase, 1)[0]\<close> is the whole text then.
\<close>

definition after_first :: "string \<Rightarrow> string \<Rightarrow> exn + string" where
  "after_first sep text =
     (case split_once sep text of
        Some (a, b) \<Rightarrow> Inr b
      | None \<Rightarrow> Inl (Exn IndexError ''list index out of range''))"

definition before_first :: "string \<Rightarrow> string \<Rightarrow> string" where
  "before_first sep text =
     (case split_once sep text of
        Some (a, b) \<Rightarrow> a
      | None \<Rightarrow> text)"

definition cut_at_phrase :: "string \<Rightarrow> string \<Rightarrow> string" where
  "cut_at_phrase text phrase =
     (if py_in phrase text then strip (before_first phrase text) else text)"

definition location_candidate :: "element \<Rightarrow> exn + string option" where
  "location_candidate element =
     bind_exn (stripped_text element) (\<lambda>text.
       if text \<noteq> [] \<and> length text < 100 \<and> (py_in ''Location'' text \<or> py_in '','' text) \<and>
          \<not> py_in ''$'' text
       then
         bind_exn (if py_in ''Location'' text \<and> py_in '':'' text
                   then bind_exn (after_first '':'' text) (\<lambda>rest. Inr (strip rest))
                   else Inr text) (\<lambda>text.
           Inr (Some (foldl cut_at_phrase text
                        [''Browse all'', ''Categories'', ''Nearby'', ''Within''])))
       else Inr None)"

text \<open>
  The patterns \<^verbatim>\<open>Location[\s:]+([\w\s,]+)\<close>, \<^verbatim>\<open>in ([\w\s]+, [A-Z]{2})\<close> and
  \<^verbatim>\<open>([\w\s]+, [A-Z]{2})\<close>.
\<close>

definition city_state :: regex where
  "city_state =
     Grp (seqs [Many1 (\<lambda>c. re_w c \<or> re_s c), Str '', '', One ascii_upper, One ascii_upper])"

definition location_patterns :: "regex list" where
  "location_patterns =
    [seqs [Str ''Location'', Many1 (\<lambda>c. re_s c \<or> c = CHR '':''),
           Grp (Many1 (\<lambda>c. re_w c \<or> re_s c \<or> c = CHR '',''))],
     seqs [Str ''in '', city_state],
     city_state]"

text \<open>
  \<open>for pattern in patterns: match = pattern.search(text); if match: return
  match.group(1).strip()\<close>: \<open>None\<close> when no pattern is found; \<open>group(1)\<close> of a group that
  took no part is Python's \<open>None\<close>, and \<open>.strip()\<close> on it raises.
\<close>

fun first_group :: "regex list \<Rightarrow> string \<Rightarrow> (exn + string) option" where
  "first_group [] text = None"
| "first_group (pattern # patterns) text =
     (case re_search pattern text of
        Some (m, Some g) \<Rightarrow> Some (Inr (strip g))
      | Some (m, None) \<Rightarrow>
          Some (Inl (Exn AttributeError ''NoneType object has no attribute strip''))
      | None \<Rightarrow> first_group patterns text)"

definition location_pattern_candidate :: "element \<Rightarrow> exn + string option" where
  "location_pattern_candidate element =
     bind_exn (stripped_text element) (\<lambda>text.
       if text \<noteq> [] \<and> length text < 100 \<and> \<not> py_in ''$'' text then
         (case first_group location_patterns text of
            Some r \<Rightarrow> bind_exn r (\<lambda>found. Inr (Some found))
          | None \<Rightarrow>
              Inr (if py_in '','' text \<and> length text < 50 \<and> \<not> py_in ''$'' text \<and>
                      length (split_on CHR '','' text) = 2 \<and>
                      list_all (\<lambda>p. strip p \<noteq> []) (split_on CHR '','' text)
                   then Some text else None))
       else Inr None)"

definition extract_location_from_container :: "element \<Rightarrow> string" where
  "extract_location_from_container container =
     (case try_selectors location_candidate container location_selectors of
        Some text \<Rightarrow> text
      | None \<Rightarrow>
          (case find_elements container CSS_SELECTOR ''span, div'' of
             Inl x \<Rightarrow> ''Location not found''
           | Inr elements \<Rightarrow>
               (case first_accepted_skipping location_pattern_candidate elements of
                  Some text \<Rightarrow> text
                | None \<Rightarrow> ''Location not found'')))"

section \<open>extract_description_from_container\<close>

definition description_selectors :: "string list" where
  "description_selectors =
    [''[data-testid='marketplace_listing_item_description']'',
     ''[data-testid='marketplace_pdp_description']'',
     ''.xz9dl7a'',
     ''[aria-label*='description']'',
     ''.x1gslohp'',
     ''.xw7yly9'']"

definition description_ok :: "string \<Rightarrow> bool" where
  "description_ok text =
     (text \<noteq> [] \<and> 20 < length text \<and> \<not> py_in ''Browse all'' text \<and>
      \<not> py_in ''Categories'' text \<and> \<not> py_in ''Nearby Cities'' text \<and> dollars text \<le> 1)"

definition content_ok :: "string \<Rightarrow> bool" where
  "content_ok text =
     (text \<noteq> [] \<and> 40 < length text \<and> \<not> py_in ''Browse all'' text \<and>
      \<not> py_in ''Categories'' text \<and> dollars text \<le> 1)"

text \<open>
  \<open>for element in elements: text = element.text.strip(); if ...: candidates.append(text)\<close>.
  The result is the list of candidates after the loop, and the exception when one was
  raised: the candidates appended before it stay appended.
\<close>

fun append_texts :: "(string \<Rightarrow> bool) \<Rightarrow> element list \<Rightarrow> string list \<Rightarrow> string list \<times> exn option" where
  "append_texts ok [] candidates = (candidates, None)"
| "append_texts ok (element # elements) candidates =
     (case stripped_text element of
        Inl x \<Rightarrow> (candidates, Some x)
      | Inr text \<Rightarrow>
          append_texts ok elements (if ok text then candidates @ [text] else candidates))"

text \<open>The loop over \<open>description_selectors\<close>: an exception goes on with the next selector.\<close>

fun description_candidates :: "element \<Rightarrow> string list \<Rightarrow> string list \<Rightarrow> string list" where
  "description_candidates container [] candidates = candidates"
| "description_candidates container (selector # selectors) candidates =
     (case find_elements container CSS_SELECTOR selector of
        Inl x \<Rightarrow> description_candidates container selectors candidates
      | Inr elements \<Rightarrow>
          description_candidates container selectors
            (fst (append_texts description_ok elements candidates)))"

definition is_ui_text :: "string \<Rightarrow> bool" where
  "is_ui_text text =
     list_ex (\<lambda>x. py_in x (lower text))
       [''browse all'', ''create new'', ''categories'', ''miles'', ''nearby'']"

definition description_fallback :: "element \<Rightarrow> string" where
  "description_fallback container =
     (case find_elements container CSS_SELECTOR ''div[dir='auto']'' of
        Inl x \<Rightarrow> ''Description not found''
      | Inr elements \<Rightarrow>
          (case append_texts content_ok elements [] of
             (content_candidates, Some x) \<Rightarrow> ''Description not found''
           | ([], None) \<Rightarrow> ''Description not found''
           | (c # cs, None) \<Rightarrow> max_by_len c cs))"

definition extract_description_from_container :: "element \<Rightarrow> string" where
  "extract_description_from_container container =
     (case description_candidates container description_selectors [] of
        [] \<Rightarrow> description_fallback container
      | c # cs \<Rightarrow>
          (case filter (\<lambda>text. \<not> is_ui_text text) (c # cs) of
             [] \<Rightarrow> max_by_len c cs
           | f # fs \<Rightarrow> max_by_len f fs))"

section \<open>extract_images_from_container\<close>

definition image_selectors :: "string list" where
  "image_selectors =
    [''[data-testid='marketplace_pdp_images'] img'',
     ''[data-testid='marketplace_pdp_carousel'] img'',
     ''[data-testid='marketplace-pdp-image'] img'',
     ''.x5yr21d img'',
     ''.x1rg5ohu img'',
     ''.x6ikm8r img'',
     ''img[src*='scontent']'',
     ''img[alt*='product']'',
     ''img[data-visualcompletion='media-vc-image']'']"

definition carousel_xpath :: string where
  "carousel_xpath =
     ''./ancestor::*[contains(@data-testid, 'carousel') or contains(@data-testid, 'pdp_images')]''"

text \<open>
  \<open>int(width)\<close>: surrounding whitespace is dropped, a sign may lead, and the digits may
  be grouped by single underscores; anything else raises \<open>ValueError\<close>. The whitespace
  \<open>int\<close> drops is narrower than that of \<open>str.strip\<close>: the separators U+001C to U+001F
  are not part of it, so a text that starts or ends with one of them raises.
\<close>

definition int_space :: "char \<Rightarrow> bool" where
  "int_space c = (in_range 9 13 c \<or> in_range 32 32 c \<or> in_range 133 133 c \<or> in_range 160 160 c)"

definition int_strip :: "string \<Rightarrow> string" where
  "int_strip s = rev (dropWhile int_space (rev (dropWhile int_space s)))"

definition digits_value :: "string \<Rightarrow> int" where
  "digits_value ds = foldl (\<lambda>acc c. 10 * acc + (of_char c - 48)) 0 ds"

definition py_int :: "string \<Rightarrow> exn + int" where
  "py_int s =
     (let t = int_strip s;
          negative = (case t of [] \<Rightarrow> False | c # rest \<Rightarrow> c = CHR ''-'');
          signed = (case t of [] \<Rightarrow> False | c # rest \<Rightarrow> c = CHR ''-'' \<or> c = CHR ''+'');
          groups = split_on CHR ''_'' (if signed then drop 1 t else t)
      in if list_all (\<lambda>g. g \<noteq> [] \<and> list_all ascii_digit g) groups
         then Inr ((if negative then - 1 else 1) * digits_value (concat groups))
         else Inl (Exn ValueError (''invalid literal for int() with base 10: '' @ s)))"

text \<open>
  The body of the loop over \<open>images\<close>, with the list \<open>image_urls\<close> collected so far. It
  returns from the function (\<open>Return\<close>) or goes on with the next image (\<open>Next\<close>, with
  the list as it is then); an exception inside the body goes on with the next image, and
  a source appended before the exception stays appended.
\<close>

datatype image_step = Return "string list" | Next "string list"

definition too_small :: "string option \<Rightarrow> exn + bool" where
  "too_small width =
     (case width of
        None \<Rightarrow> Inr False
      | Some w \<Rightarrow> if w = [] then Inr False else bind_exn (py_int w) (\<lambda>n. Inr (n < 50)))"

definition image_body :: "element \<Rightarrow> string list \<Rightarrow> image_step" where
  "image_body img image_urls =
     (case get_attribute img ''src'' of
        Inl x \<Rightarrow> Next image_urls
      | Inr None \<Rightarrow> Next image_urls
      | Inr (Some src) \<Rightarrow>
          if src \<noteq> [] \<and> py_in ''scontent'' src \<and> 20 < length src \<and> \<not> List.member image_urls src
          then
            (case bind_exn (get_attribute img ''width'') too_small of
               Inl x \<Rightarrow> Next image_urls
             | Inr True \<Rightarrow> Next image_urls
             | Inr False \<Rightarrow>
                 (case find_elements img XPATH carousel_xpath of
                    Inl x \<Rightarrow> Next (image_urls @ [src])
                  | Inr [] \<Rightarrow> Next (image_urls @ [src])
                  | Inr (parent # parents) \<Rightarrow> Return [src]))
          else Next image_urls)"

fun images_loop :: "element list \<Rightarrow> string list \<Rightarrow> image_step" where
  "images_loop [] image_urls = Next image_urls"
| "images_loop (img # images) image_urls =
     (case image_body img image_urls of
        Return result \<Rightarrow> Return result
      | Next image_urls' \<Rightarrow> images_loop images image_urls')"

fun image_selectors_loop :: "element \<Rightarrow> string list \<Rightarrow> string list \<Rightarrow> image_step" where
  "image_selectors_loop container [] image_urls = Next image_urls"
| "image_selectors_loop container (selector # selectors) image_urls =
     (case find_elements container CSS_SELECTOR selector of
        Inl x \<Rightarrow> image_selectors_loop container selectors image_urls
      | Inr images \<Rightarrow>
          (case images_loop images image_urls of
             Return result \<Rightarrow> Return result
           | Next image_urls' \<Rightarrow> image_selectors_loop container selectors image_urls'))"

definition extract_images_from_container :: "element \<Rightarrow> string list" where
  "extract_images_from_container container =
     (case image_selectors_loop container image_selectors [] of
        Return result \<Rightarrow> result
      | Next [] \<Rightarrow> []
      | Next (first # others) \<Rightarrow> [first])"

section \<open>The driver and the calls of a scrape\<close>

text \<open>
  A driver as \<open>scrape_facebook_marketplace\<close> uses it: \<open>driver.get(url)\<close>, the wait for a
  heading (\<open>WebDriverWait(driver, 20).until(...)\<close>), \<open>execute_script\<close>, and the document
  its lookups search. The document changes while the page loads, so the driver shows
  one document to the first extraction pass (pass 0) and one to the retry (pass 1), each
  fixed during its pass; \<open>execute_script\<close> is indexed by the pass in the same way. \<open>driver.quit()\<close> of the
  Chrome driver swallows every exception of the remote call, so it has no result here.
\<close>

record driver =
  get :: "string \<Rightarrow> exn + unit"
  wait_until :: "exn + unit"
  execute_script :: "nat \<Rightarrow> string \<Rightarrow> exn + unit"
  page :: "nat \<Rightarrow> element"

text \<open>
  The calls \<open>scrape_facebook_marketplace\<close> and \<open>scroll_and_wait\<close> make, in the order
  they are made: the calls on the driver, the sleeps, and the calls of the locator and
  of the five extractors.
\<close>

datatype event =
    Get string
  | WaitHeading
  | Sleep nat
  | Script string
  | Locate
  | ExtractTitle
  | ExtractPrice
  | ExtractLocation
  | ExtractDescription
  | ExtractImages
  | Quit

text \<open>
  A step of the scrape takes the calls made so far and returns its value, or the
  exception it raised, with the calls made then.
\<close>

type_synonym 'a io = "event list \<Rightarrow> (exn + 'a) \<times> event list"

definition ret :: "'a \<Rightarrow> 'a io" where
  "ret v = (\<lambda>log. (Inr v, log))"

definition bind_io :: "'a io \<Rightarrow> ('a \<Rightarrow> 'b io) \<Rightarrow> 'b io" where
  "bind_io m f =
     (\<lambda>log. case m log of
               (Inl x, log') \<Rightarrow> (Inl x, log')
             | (Inr v, log') \<Rightarrow> f v log')"

definition then_io :: "unit io \<Rightarrow> 'b io \<Rightarrow> 'b io" where
  "then_io m k = bind_io m (\<lambda>_. k)"

text \<open>
  \<open>call ev r\<close>: the call \<open>ev\<close> is made and has the result \<open>r\<close>. A sleep always
  returns: the cancellation of the task is not modelled.
\<close>

definition call :: "event \<Rightarrow> exn + 'a \<Rightarrow> 'a io" where
  "call ev r = (\<lambda>log. (r, log @ [ev]))"

definition sleep :: "nat \<Rightarrow> unit io" where
  "sleep seconds = call (Sleep seconds) (Inr ())"

text \<open>
  \<open>scroll_and_wait\<close>: an exception of either script ends the sequence and is swallowed.
\<close>

definition scroll_bottom :: string where
  "scroll_bottom = ''window.scrollTo(0, document.body.scrollHeight);''"

definition scroll_back :: string where
  "scroll_back = ''window.scrollTo(0, document.body.scrollHeight * 0.8);''"

definition scroll_and_wait :: "driver \<Rightarrow> nat \<Rightarrow> nat \<Rightarrow> unit io" where
  "scroll_and_wait driver pass scroll_pause_time =
     (\<lambda>log. case then_io (call (Script scroll_bottom) (execute_script driver pass scroll_bottom))
                  (then_io (sleep scroll_pause_time)
                  (then_io (call (Script scroll_back) (execute_script driver pass scroll_back))
                  (sleep 1))) log of
               (Inl x, log') \<Rightarrow> (Inr (), log')
             | (Inr u, log') \<Rightarrow> (Inr (), log'))"

text \<open>The wait for a heading: a \<open>TimeoutException\<close> is logged and tolerated.\<close>

definition wait_for_heading :: "driver \<Rightarrow> unit io" where
  "wait_for_heading driver =
     (\<lambda>log. case call WaitHeading (wait_until driver) log of
               (Inl x, log') \<Rightarrow>
                 if exn_class x = TimeoutException then (Inr (), log') else (Inl x, log')
             | (Inr u, log') \<Rightarrow> (Inr (), log'))"

section \<open>scrape_facebook_marketplace\<close>

record listing =
  title :: string
  price :: string
  location :: string
  description :: string
  image_url :: "string option"
  success :: bool

text \<open>
  The retry: a sleep, a scroll, the container located again in the document of pass 1,
  and each of title, price, location and images extracted again when it still has its
  sentinel (the empty list for images). The arguments are the values of the first pass.
\<close>

definition retry :: "driver \<Rightarrow> string \<Rightarrow> string \<Rightarrow> string \<Rightarrow> string list \<Rightarrow>
    (string \<times> string \<times> string \<times> string list) io" where
  "retry driver title0 price0 location0 image_urls0 =
     then_io (sleep 5) (
     then_io (scroll_and_wait driver 1 3) (
     bind_io (call Locate (find_main_listing_container (page driver 1))) (\<lambda>main_container.
     bind_io (if title0 = ''Title not found''
              then call ExtractTitle (Inr (extract_title_from_container main_container))
              else ret title0) (\<lambda>title.
     bind_io (if price0 = ''Price not found''
              then call ExtractPrice (Inr (extract_price_from_container main_container))
              else ret price0) (\<lambda>price.
     bind_io (if location0 = ''Location not found''
              then call ExtractLocation (Inr (extract_location_from_container main_container))
              else ret location0) (\<lambda>location.
     bind_io (if image_urls0 = []
              then call ExtractImages (Inr (extract_images_from_container main_container))
              else ret image_urls0) (\<lambda>image_urls.
     ret (title, price, location, image_urls))))))))"

text \<open>The post-processing validation and the record returned by the \<open>try\<close> block.\<close>

definition finish :: "string \<Rightarrow> string \<Rightarrow> string \<Rightarrow> string \<Rightarrow> string list \<Rightarrow> listing" where
  "finish title0 price0 location0 description0 image_urls0 =
     \<lparr> title = (if 1 < dollars title0 then ''Facebook Marketplace Listing'' else title0),
       price = price0,
       location = location0,
       description = description0,
       image_url = (case image_urls0 of [] \<Rightarrow> None | first # others \<Rightarrow> Some first),
       success = True \<rparr>"

text \<open>
  The body of the \<open>try\<close> block, in two parts. First the page is loaded: navigation,
  the wait for a heading, the settle sleep and the scroll.
\<close>

definition load_page :: "driver \<Rightarrow> string \<Rightarrow> unit io" where
  "load_page driver url =
     then_io (call (Get url) (get driver url)) (
     then_io (wait_for_heading driver) (
     then_io (sleep 10) (
     scroll_and_wait driver 0 3)))"

text \<open>
  Then the listing is extracted: the container is located in the document of pass 0,
  the extractors run on it (price and location only for a marketplace URL, which have
  \<open>N/A\<close> otherwise), the retry runs when the URL is a marketplace URL and price,
  location or image is missing, and the record is built.
\<close>

definition extract_listing :: "driver \<Rightarrow> bool \<Rightarrow> listing io" where
  "extract_listing driver is_marketplace =
     bind_io (call Locate (find_main_listing_container (page driver 0))) (\<lambda>main_container.
     bind_io (call ExtractTitle (Inr (extract_title_from_container main_container))) (\<lambda>title.
     bind_io (if is_marketplace
              then call ExtractPrice (Inr (extract_price_from_container main_container))
              else ret ''N/A'') (\<lambda>price.
     bind_io (if is_marketplace
              then call ExtractLocation (Inr (extract_location_from_container main_container))
              else ret ''N/A'') (\<lambda>location.
     bind_io (call ExtractDescription
                (Inr (extract_description_from_container main_container))) (\<lambda>description.
     bind_io (call ExtractImages (Inr (extract_images_from_container main_container)))
             (\<lambda>image_urls.
     bind_io (if is_marketplace \<and> (price = ''Price not found'' \<or>
                   location = ''Location not found'' \<or> image_urls = [])
              then retry driver title price location image_urls
              else ret (title, price, location, image_urls))
             (\<lambda>(title, price, location, image_urls).
     ret (finish title price location description image_urls))))))))"

definition scrape_try :: "driver \<Rightarrow> string \<Rightarrow> listing io" where
  "scrape_try driver url =
     (let is_marketplace = py_in ''marketplace'' url
      in then_io (load_page driver url) (extract_listing driver is_marketplace))"

text \<open>The two error records.\<close>

definition browser_error :: listing where
  "browser_error =
     \<lparr> title = ''Error setting up web browser'',
       price = ''Unknown'',
       location = ''Unknown'',
       description = ''Could not initialize the browser to fetch content details.'',
       image_url = None,
       success = False \<rparr>"

definition scrape_error :: "exn \<Rightarrow> listing" where
  "scrape_error e =
     \<lparr> title = ''Error fetching listing'',
       price = ''Unknown'',
       location = ''Unknown'',
       description = ''Could not retrieve listing details. Error: '' @ str_of e,
       image_url = None,
       success = False \<rparr>"

text \<open>
  \<open>setup_webdriver\<close>: the world outside gives the choice \<open>random.choice\<close> makes and the
  result of starting Chrome with the arguments; a failure to start gives \<open>None\<close>.
\<close>

record world =
  random_choice :: nat
  chrome :: "string list \<Rightarrow> exn + driver"
  now :: nat

definition user_agents :: "string list" where
  "user_agents =
    [''Mozilla/5.0 (Macintosh; Intel Mac OS X 10_15_7) AppleWebKit/537.36 (KHTML, like Gecko) Chrome/114.0.0.0 Safari/537.36'',
     ''Mozilla/5.0 (iPhone; CPU iPhone OS 16_5 like Mac OS X) AppleWebKit/605.1.15 (KHTML, like Gecko) Version/16.0 Mobile/15E148 Safari/604.1'',
     ''Mozilla/5.0 (Windows NT 10.0; Win64; x64) AppleWebKit/537.36 (KHTML, like Gecko) Chrome/115.0.0.0 Safari/537.36'']"

definition chrome_arguments :: "nat \<Rightarrow> string list" where
  "chrome_arguments choice =
    [''--headless'', ''--no-sandbox'', ''--disable-dev-shm-usage'', ''--disable-gpu'',
     ''--window-size=1920,1080'',
     ''--user-agent='' @ user_agents ! (choice mod length user_agents)]"

definition setup_webdriver :: "world \<Rightarrow> driver option" where
  "setup_webdriver w =
     (case chrome w (chrome_arguments (random_choice w)) of
        Inl e \<Rightarrow> None
      | Inr driver \<Rightarrow> Some driver)"

text \<open>
  The whole function: the record it returns and the calls it made. The \<open>finally\<close>
  clause makes the call \<open>driver.quit()\<close> after the \<open>try\<close> block and after the handler.
\<close>

definition scrape_facebook_marketplace :: "world \<Rightarrow> string \<Rightarrow> listing \<times> event list" where
  "scrape_facebook_marketplace w url =
     (case setup_webdriver w of
        None \<Rightarrow> (browser_error, [])
      | Some driver \<Rightarrow>
          (case scrape_try driver url [] of
             (Inr details, log) \<Rightarrow> (details, log @ [Quit])
           | (Inl e, log) \<Rightarrow> (scrape_error e, log @ [Quit])))"

section \<open>on_message\<close>

text \<open>
  What \<open>on_message\<close> reads of a message, the embed it builds, and what it does on the
  channel. The field names and the processing notice of the program start with a pictogram
  that is outside the range of characters modelled; the names below are the text after it.
\<close>

record message =
  author_is_bot :: bool
  channel_id :: int
  content :: string
  display_name :: string

record embed =
  embed_title :: string
  embed_url :: "string option"
  embed_description :: "string option"
  embed_color :: nat
  embed_timestamp :: nat
  embed_image :: "string option"
  embed_fields :: "(string \<times> string \<times> bool) list"
  embed_footer :: "string option"

datatype action = Send string | SendEmbed embed | DeleteProcessing

definition processing_notice :: string where
  "processing_notice = ''Fetching details from Facebook... (this may take a few moments)''"

text \<open>The cleaning of the extracted data, one definition for each field.\<close>

definition shown_title :: "string \<Rightarrow> string \<Rightarrow> string" where
  "shown_title fb_url title0 =
     (if title0 = ''Title not found'' \<or> py_in ''Browse all'' title0
      then (if py_in ''marketplace'' fb_url then ''Facebook Marketplace Listing''
            else ''Facebook Post'')
      else title0)"

text \<open>
  The price: the sentinel becomes \<open>Not listed\<close>, and so does, in the final validation, a
  price with more than one \<open>$\<close>.
\<close>

definition shown_price :: "string \<Rightarrow> string" where
  "shown_price price0 =
     (let price1 = (if price0 = ''Price not found'' then ''Not listed'' else price0)
      in if 1 < dollars price1 then ''Not listed'' else price1)"

definition shown_location :: "string \<Rightarrow> string" where
  "shown_location location0 =
     (if location0 = ''Location not found'' then ''Not specified''
      else if py_in ''Location'' location0
        then strip (remove_all '':'' (remove_all ''Location'' location0))
      else location0)"

text \<open>
  One round of the loop over the phrases: the description is split at the first
  occurrence of the phrase and the longer side is kept (the second when they are equal).
\<close>

definition drop_phrase :: "string \<Rightarrow> string \<Rightarrow> string" where
  "drop_phrase description0 phrase =
     (if py_in phrase description0 then
        (case split_once phrase description0 of
           Some (left, right) \<Rightarrow>
             if length right < length left then strip left else strip right
         | None \<Rightarrow> description0)
      else description0)"

definition cleaned_description :: "string \<Rightarrow> string" where
  "cleaned_description description0 =
     (if description0 = ''Description not found'' then ''No description available''
      else
        (let description1 =
               foldl drop_phrase description0
                 [''Browse all'', ''Categories'', ''Nearby Cities'', ''Create new listing'',
                  ''Your account'']
         in if 2 < dollars description1 then ''Description not available'' else description1))"

text \<open>The handling of long descriptions.\<close>

definition shorten :: "string \<Rightarrow> string" where
  "shorten description0 =
     (if 1024 < length description0 then take 1021 description0 @ ''...'' else description0)"

definition shown_description :: "string \<Rightarrow> string" where
  "shown_description description0 = shorten (cleaned_description description0)"

definition shows_as_marketplace :: "string \<Rightarrow> string \<Rightarrow> bool" where
  "shows_as_marketplace fb_url price0 =
     (py_in ''marketplace'' fb_url \<or>
      (shown_price price0 \<noteq> ''Not listed'' \<and> shown_price price0 \<noteq> ''N/A''))"

definition price_field :: string where
  "price_field = ''Price''"

definition location_field :: string where
  "location_field = ''Location''"

definition description_field :: string where
  "description_field = ''Description''"

text \<open>The embed for a record with \<open>success\<close>.\<close>

definition listing_embed :: "string \<Rightarrow> string \<Rightarrow> nat \<Rightarrow> listing \<Rightarrow> embed" where
  "listing_embed fb_url author timestamp details =
     (let is_marketplace = shows_as_marketplace fb_url (price details);
          text = shown_description (description details)
      in \<lparr> embed_title = shown_title fb_url (title details),
           embed_url = Some fb_url,
           embed_description =
             (if \<not> is_marketplace \<and> 50 < length text \<and>
                 \<not> list_ex (\<lambda>x. py_in x (lower text))
                     [''browse all'', ''create new'', ''categories'']
              then Some text else None),
           embed_color = 0x1877F2,
           embed_timestamp = timestamp,
           embed_image =
             (case image_url details of
                None \<Rightarrow> None
              | Some u \<Rightarrow> if u \<noteq> [] then Some u else None),
           embed_fields =
             (if is_marketplace
              then [(price_field, shown_price (price details), True),
                    (location_field, shown_location (location details), True)] @
                   (if text \<noteq> [] \<and> text \<noteq> ''No description available'' \<and>
                       text \<noteq> ''Description not found''
                    then [(description_field, text, False)] else [])
              else []),
           embed_footer =
             Some (''Requested by '' @ author @
                   (if is_marketplace then '' | Marketplace Listing'' else '' | Facebook Post'')) \<rparr>)"

text \<open>The embed for a record without \<open>success\<close>.\<close>

definition error_embed :: "string \<Rightarrow> nat \<Rightarrow> embed" where
  "error_embed fb_url timestamp =
     \<lparr> embed_title = ''Error Fetching Details'',
       embed_url = None,
       embed_description = Some ''I couldn't retrieve the details from this Facebook link.'',
       embed_color = 0xFF0000,
       embed_timestamp = timestamp,
       embed_image = None,
       embed_fields = [(''Link'', fb_url, False)],
       embed_footer = None \<rparr>"

definition reply_embed :: "string \<Rightarrow> string \<Rightarrow> nat \<Rightarrow> listing \<Rightarrow> embed" where
  "reply_embed fb_url author timestamp details =
     (if success details then listing_embed fb_url author timestamp details
      else error_embed fb_url timestamp)"

text \<open>
  The handler: what is done on the channel, and the calls of the scrape. A message of
  the bot itself, a message on another channel and a message where no pattern is found
  do nothing.
\<close>

definition on_message :: "world \<Rightarrow> int \<Rightarrow> message \<Rightarrow> action list \<times> event list" where
  "on_message w CHANNEL_ID message =
     (if author_is_bot message then ([], [])
      else if channel_id message \<noteq> CHANNEL_ID then ([], [])
      else
        (case find_fb_url (content message) of
           None \<Rightarrow> ([], [])
         | Some fb_url \<Rightarrow>
             if fb_url \<noteq> [] then
               (case scrape_facebook_marketplace w fb_url of
                  (listing_details, log) \<Rightarrow>
                    ([Send processing_notice, DeleteProcessing,
                      SendEmbed (reply_embed fb_url (display_name message) (now w)
                                   listing_details)],
                     log))
             else ([], [])))"

section \<open>The container locator as a search\<close>

text \<open>
  The locator in the words of its specification. A candidate has a heading-like
  descendant when the lookup of a heading in it finds an element, and a descendant with
  a currency marker when the lookup of an element with a \<open>$\<close> in its text finds one; it
  qualifies when it has both. The candidates of a page are the elements its lookups
  return for the container selectors, in the order of the selector list.
  \<open>first_qualifying_among\<close> is the first of a list of candidates that qualifies and,
  when none does, the body of the page.
\<close>

definition has_heading :: "element \<Rightarrow> bool" where
  "has_heading container =
     (case find_elements container CSS_SELECTOR heading_selector of
        Inl x \<Rightarrow> False
      | Inr [] \<Rightarrow> False
      | Inr (heading # headings) \<Rightarrow> True)"

definition has_currency :: "element \<Rightarrow> bool" where
  "has_currency container =
     (case find_elements container XPATH dollar_xpath of
        Inl x \<Rightarrow> False
      | Inr [] \<Rightarrow> False
      | Inr (priced # others) \<Rightarrow> True)"

definition qualifies :: "element \<Rightarrow> bool" where
  "qualifies container = (has_heading container \<and> has_currency container)"

definition candidates_of :: "element \<Rightarrow> string \<Rightarrow> element list" where
  "candidates_of driver_page selector =
     (case find_elements driver_page CSS_SELECTOR selector of
        Inl x \<Rightarrow> []
      | Inr containers \<Rightarrow> containers)"

definition candidates :: "element \<Rightarrow> element list" where
  "candidates driver_page = concat (map (candidates_of driver_page) container_selectors)"

definition first_qualifying_among :: "element list \<Rightarrow> element \<Rightarrow> exn + element" where
  "first_qualifying_among containers driver_page =
     (case find qualifies containers of
        Some container \<Rightarrow> Inr container
      | None \<Rightarrow> find_element driver_page TAG_NAME ''body'')"

text \<open>
  The inspection of a candidate raises when one of its two lookups does. The candidates
  the locator reaches are, for each selector, the ones before the first candidate whose
  inspection raises.
\<close>

definition inspection_raises :: "element \<Rightarrow> bool" where
  "inspection_raises container =
     (case find_elements container CSS_SELECTOR heading_selector of
        Inl x \<Rightarrow> True
      | Inr headings \<Rightarrow>
          (case find_elements container XPATH dollar_xpath of
             Inl x \<Rightarrow> True
           | Inr priced \<Rightarrow> False))"

definition reached_of :: "element \<Rightarrow> string \<Rightarrow> element list" where
  "reached_of driver_page selector =
     takeWhile (\<lambda>c. \<not> inspection_raises c) (candidates_of driver_page selector)"

definition reached :: "element \<Rightarrow> element list" where
  "reached driver_page = concat (map (reached_of driver_page) container_selectors)"

section \<open>The calls of a page load\<close>

text \<open>
  The calls \<open>load_page\<close> and \<open>scroll_and_wait\<close> can make: no lookup, no extraction, not
  the sleep of the retry and not \<open>quit\<close>.
\<close>

definition load_events :: "string \<Rightarrow> event set" where
  "load_events url =
     {Get url, WaitHeading, Sleep 10, Script scroll_bottom, Sleep 3, Script scroll_back, Sleep 1}"

section \<open>Example pages and browsers\<close>

text \<open>
  An element with a text and nothing else, an element with a text and a table of what
  its lookups find, and an element that is no longer attached to the document: every
  call on it raises.
\<close>

definition leaf :: "string \<Rightarrow> element" where
  "leaf t = Element (Inr t) (\<lambda>name. Inr None) (\<lambda>how v. Inr [])"

definition node :: "string \<Rightarrow> ((locator \<times> string) \<times> element list) list \<Rightarrow> element" where
  "node t table =
     Element (Inr t) (\<lambda>name. Inr None)
       (\<lambda>how v. case map_of table (how, v) of None \<Rightarrow> Inr [] | Some found \<Rightarrow> Inr found)"

definition stale :: element where
  "stale =
     Element (Inl (Exn StaleElementReferenceException ''stale element reference''))
       (\<lambda>name. Inl (Exn StaleElementReferenceException ''stale element reference''))
       (\<lambda>how v. Inl (Exn StaleElementReferenceException ''stale element reference''))"

text \<open>
  A listing with a heading and a price, a second one, a tile with a heading and no price,
  and a tile with a price and no heading. A page where \<open>div[role='main']\<close> finds the
  two tiles and a later selector finds the tile with a price, then the two listings; a
  page where only the two tiles are found; and a page where the last container selector
  finds a stale candidate and then the listing.
\<close>

definition main_listing :: element where
  "main_listing =
     node ''Red bicycle $120''
       [((CSS_SELECTOR, heading_selector), [leaf ''Red bicycle'']),
        ((XPATH, dollar_xpath), [leaf ''$120''])]"

definition second_listing :: element where
  "second_listing =
     node ''Blue chair $40''
       [((CSS_SELECTOR, heading_selector), [leaf ''Blue chair'']),
        ((XPATH, dollar_xpath), [leaf ''$40''])]"

definition heading_tile :: element where
  "heading_tile =
     node ''Similar items''
       [((CSS_SELECTOR, heading_selector), [leaf ''Similar items''])]"

definition price_tile :: element where
  "price_tile =
     node ''$15''
       [((XPATH, dollar_xpath), [leaf ''$15''])]"

definition listing_page :: element where
  "listing_page =
     node []
       [((CSS_SELECTOR, ''div[role='main']''), [heading_tile, price_tile]),
        ((CSS_SELECTOR, ''.xrvj5dj.x1gslohp''), [price_tile, main_listing, second_listing]),
        ((TAG_NAME, ''body''), [leaf ''everything''])]"

definition tiles_page :: element where
  "tiles_page =
     node []
       [((CSS_SELECTOR, ''div[role='main']''), [heading_tile, price_tile]),
        ((TAG_NAME, ''body''), [leaf ''everything''])]"

definition stale_page :: element where
  "stale_page =
     node []
       [((CSS_SELECTOR, ''.x78zum5.xdt5ytf''), [stale, main_listing]),
        ((TAG_NAME, ''body''), [leaf ''everything''])]"



text \<open>
  A browser whose first document has a title and a price, and whose document at the
  retry has another title, another price and a location. A browser whose navigation
  raises. A world where Chrome starts with a given driver, and one where it does not
  start.
\<close>

definition first_body :: element where
  "first_body =
     node ''Red bicycle, barely used $120''
       [((CSS_SELECTOR, ''h1''), [leaf ''Red bicycle, barely used'']),
        ((CSS_SELECTOR, ''.x1j85h84''), [leaf ''$120''])]"

definition second_body :: element where
  "second_body =
     node ''Blue bicycle, brand new $999 Austin, TX''
       [((CSS_SELECTOR, ''h1''), [leaf ''Blue bicycle, brand new'']),
        ((CSS_SELECTOR, ''.x1j85h84''), [leaf ''$999'']),
        ((CSS_SELECTOR, ''.x1e56ztr''), [leaf ''Austin, TX''])]"

definition example_driver :: driver where
  "example_driver =
     \<lparr> get = (\<lambda>url. Inr ()),
       wait_until = Inl (Exn TimeoutException ''no heading''),
       execute_script = (\<lambda>pass script. Inr ()),
       page = (\<lambda>pass. node [] [((TAG_NAME, ''body''),
                 [if pass = 0 then first_body else second_body])]) \<rparr>"

definition broken_driver :: driver where
  "broken_driver =
     \<lparr> get = (\<lambda>url. Inl (Exn WebDriverException ''net::ERR_NAME_NOT_RESOLVED'')),
       wait_until = Inr (),
       execute_script = (\<lambda>pass script. Inr ()),
       page = (\<lambda>pass. leaf []) \<rparr>"

definition world_with :: "driver \<Rightarrow> world" where
  "world_with driver = \<lparr> random_choice = 0, chrome = (\<lambda>arguments. Inr driver), now = 0 \<rparr>"

definition no_browser :: world where
  "no_browser =
     \<lparr> random_choice = 0,
       chrome = (\<lambda>arguments. Inl (Exn WebDriverException ''chrome not reachable'')),
       now = 0 \<rparr>"

definition item_url :: string where
  "item_url = ''https://www.facebook.com/marketplace/item/123456789''"

definition share_url :: string where
  "share_url = ''https://www.facebook.com/share/abc''"

section \<open>Facts about strings and patterns\<close>

lemma dollars_simps:
  "dollars [] = 0"
  "dollars (c # cs) = (if c = CHR ''$'' then Suc (dollars cs) else dollars cs)"
  by (simp_all add: dollars_def count_char_def)

lemma startswith_iff: "startswith s p \<longleftrightarrow> (\<exists>rest. s = p @ rest)"
  unfolding startswith_def
  by (metis append_eq_conv_conj append_take_drop_id)

text \<open>\<open>sub in s\<close> holds exactly when \<open>sub\<close> is a substring of \<open>s\<close>.\<close>

lemma py_in_iff: "py_in sub s \<longleftrightarrow> (\<exists>pre post. s = pre @ sub @ post)"
proof (induction s)
  case Nil
  then show ?case by auto
next
  case (Cons c cs)
  show ?case
  proof
    assume "py_in sub (c # cs)"
    then consider "startswith (c # cs) sub" | "py_in sub cs" by auto
    then show "\<exists>pre post. c # cs = pre @ sub @ post"
    proof cases
      case 1
      then obtain rest where "c # cs = sub @ rest" by (auto simp: startswith_iff)
      then have "c # cs = [] @ sub @ rest" by simp
      then show ?thesis by blast
    next
      case 2
      with Cons.IH obtain pre post where "cs = pre @ sub @ post" by blast
      then have "c # cs = (c # pre) @ sub @ post" by simp
      then show ?thesis by blast
    qed
  next
    assume "\<exists>pre post. c # cs = pre @ sub @ post"
    then obtain pre post where eq: "c # cs = pre @ sub @ post" by blast
    show "py_in sub (c # cs)"
    proof (cases pre)
      case Nil
      with eq have "startswith (c # cs) sub" by (auto simp: startswith_iff)
      then show ?thesis by simp
    next
      case (Cons x xs)
      with eq have "cs = xs @ sub @ post" by simp
      with Cons.IH have "py_in sub cs" by blast
      then show ?thesis by simp
    qed
  qed
qed

text \<open>A match consumes a prefix of the text, so what \<open>re.search\<close> finds is a substring.\<close>

lemma repeats_split: "(m, g, rest) \<in> set (repeats k p s) \<Longrightarrow> s = m @ rest"
  by (auto simp: repeats_def)

lemma rmatch_split: "(m, g, rest) \<in> set (rmatch r s) \<Longrightarrow> s = m @ rest"
proof (induction r arbitrary: m g rest s)
  case (Str t)
  then show ?case by (auto simp: startswith_iff split: if_splits)
next
  case (One p)
  then show ?case by (auto split: list.splits if_splits)
next
  case (Many p)
  then show ?case by (auto dest: repeats_split)
next
  case (Many1 p)
  then show ?case by (auto dest: repeats_split)
next
  case (Opt r)
  then show ?case by auto
next
  case (Seq a b)
  from Seq.prems obtain m1 g1 r1 m2 g2 where a: "(m1, g1, r1) \<in> set (rmatch a s)"
    and b: "(m2, g2, rest) \<in> set (rmatch b r1)" and m: "m = m1 @ m2"
    by auto
  from Seq.IH(1) [OF a] Seq.IH(2) [OF b] m show ?case by simp
next
  case (Grp r)
  then show ?case by auto
qed

lemma re_search_substring: "re_search r s = Some (m, g) \<Longrightarrow> py_in m s"
proof (induction s)
  case Nil
  then obtain rest where "(m, g, rest) \<in> set (rmatch r [])"
    by (auto split: list.splits)
  from rmatch_split [OF this] show ?case by simp
next
  case (Cons c cs)
  show ?case
  proof (cases "rmatch r (c # cs)")
    case Nil
    with Cons show ?thesis by simp
  next
    case (Cons x xs)
    with Cons.prems obtain rest where "(m, g, rest) \<in> set (rmatch r (c # cs))"
      by (cases x) auto
    from rmatch_split [OF this] have "c # cs = [] @ m @ rest" by simp
    then show ?thesis unfolding py_in_iff by blast
  qed
qed

lemma first_match_None:
  "first_match ps s = None \<longleftrightarrow> (\<forall>p \<in> set ps. re_search p s = None)"
  by (induction ps) (auto split: option.splits)

lemma first_match_Some:
  "first_match ps s = Some u \<Longrightarrow>
     \<exists>i < length ps. (\<exists>g. re_search (ps ! i) s = Some (u, g)) \<and>
        (\<forall>j < i. re_search (ps ! j) s = None)"
proof (induction ps)
  case Nil
  then show ?case by simp
next
  case (Cons p ps)
  show ?case
  proof (cases "re_search p s")
    case None
    with Cons obtain i where i: "i < length ps" "\<exists>g. re_search (ps ! i) s = Some (u, g)"
      "\<forall>j < i. re_search (ps ! j) s = None"
      by auto
    have "\<forall>j < Suc i. re_search ((p # ps) ! j) s = None"
      using None i(3) by (auto simp: less_Suc_eq_0_disj)
    with i(1,2) show ?thesis by (intro exI [of _ "Suc i"]) auto
  next
    case (Some a)
    with Cons.prems have "\<exists>g. re_search ((p # ps) ! 0) s = Some (u, g)"
      by (cases a) auto
    then show ?thesis by (intro exI [of _ 0]) auto
  qed
qed

section \<open>The URL matcher\<close>

text \<open>
  C3. The matcher tries the patterns in the order of the list: no URL is found exactly
  when no pattern is found in the message, and a URL that is found is a substring of the
  message, found by \<open>re.search\<close> for a pattern such that no pattern before it in the
  list is found in the message. A message in which no pattern is found makes the handler
  do nothing. In the message of the scenario the item link is found.
\<close>

theorem url_matcher_first_pattern:
  "(find_fb_url txt = None \<longleftrightarrow> (\<forall>p \<in> set FB_PATTERNS. re_search p txt = None)) \<and>
   (\<forall>u. find_fb_url txt = Some u \<longrightarrow>
      py_in u txt \<and>
      (\<exists>i < length FB_PATTERNS.
         (\<exists>g. re_search (FB_PATTERNS ! i) txt = Some (u, g)) \<and>
         (\<forall>j < i. re_search (FB_PATTERNS ! j) txt = None))) \<and>
   (find_fb_url (content message) = None \<longrightarrow> on_message w CHANNEL_ID message = ([], [])) \<and>
   find_fb_url ''check this out https://www.facebook.com/marketplace/item/123456789 thanks'' =
     Some ''https://www.facebook.com/marketplace/item/123456789''"
proof (intro conjI allI impI)
  show "find_fb_url txt = None \<longleftrightarrow> (\<forall>p \<in> set FB_PATTERNS. re_search p txt = None)"
    by (simp add: find_fb_url_def first_match_None)
next
  fix u assume u: "find_fb_url txt = Some u"
  then obtain i where i: "i < length FB_PATTERNS"
    "\<exists>g. re_search (FB_PATTERNS ! i) txt = Some (u, g)"
    "\<forall>j < i. re_search (FB_PATTERNS ! j) txt = None"
    using first_match_Some [of "FB_PATTERNS" "txt" "u"] by (auto simp: find_fb_url_def)
  from i(2) show "py_in u txt" by (auto dest: re_search_substring)
  from i show "\<exists>i < length FB_PATTERNS.
         (\<exists>g. re_search (FB_PATTERNS ! i) txt = Some (u, g)) \<and>
         (\<forall>j < i. re_search (FB_PATTERNS ! j) txt = None)"
    by blast
next
  assume "find_fb_url (content message) = None"
  then show "on_message w CHANNEL_ID message = ([], [])"
    by (simp add: on_message_def)
next
  show "find_fb_url ''check this out https://www.facebook.com/marketplace/item/123456789 thanks'' =
     Some ''https://www.facebook.com/marketplace/item/123456789''"
    by code_simp
qed

text \<open>
  A message with other URLs only has no match. In a message with a mobile link before an
  item link the item link is found, since its pattern comes first in the list.
\<close>

theorem url_matcher_first_pattern_witness:
  "find_fb_url ''see https://example.com/marketplace/item/1 and http://fb.example/x'' = None \<and>
   re_search (FB_PATTERNS ! 0)
     ''see https://example.com/marketplace/item/1 and http://fb.example/x'' = None \<and>
   find_fb_url
     ''a https://m.facebook.com/marketplace/item/7 b https://www.facebook.com/marketplace/item/42'' =
     Some ''https://www.facebook.com/marketplace/item/42'' \<and>
   py_in ''https://www.facebook.com/marketplace/item/42''
     ''a https://m.facebook.com/marketplace/item/7 b https://www.facebook.com/marketplace/item/42''"
proof -
  have n: "find_fb_url ''see https://example.com/marketplace/item/1 and http://fb.example/x'' =
      None"
    by code_simp
  have s: "find_fb_url
      ''a https://m.facebook.com/marketplace/item/7 b https://www.facebook.com/marketplace/item/42'' =
      Some ''https://www.facebook.com/marketplace/item/42''"
    by code_simp
  have l: "FB_PATTERNS ! 0 \<in> set FB_PATTERNS"
    by (simp add: FB_PATTERNS_def)
  show ?thesis
    using url_matcher_first_pattern
      [of "''see https://example.com/marketplace/item/1 and http://fb.example/x''"]
      url_matcher_first_pattern
      [of "''a https://m.facebook.com/marketplace/item/7 b https://www.facebook.com/marketplace/item/42''"]
      n s l
    by auto
qed

section \<open>The loops of the extractors\<close>

lemma first_accepted_Some:
  "first_accepted f es = Inr (Some v) \<Longrightarrow> \<exists>e \<in> set es. f e = Inr (Some v)"
  by (induction es) (auto split: sum.splits option.splits)

lemma try_selectors_Some:
  "try_selectors f c sels = Some v \<Longrightarrow>
     \<exists>sel \<in> set sels. \<exists>es. find_elements c CSS_SELECTOR sel = Inr es \<and>
        (\<exists>e \<in> set es. f e = Inr (Some v))"
proof (induction sels)
  case Nil
  then show ?case by simp
next
  case (Cons sel sels)
  show ?case
  proof (cases "bind_exn (find_elements c CSS_SELECTOR sel) (first_accepted f) = Inr (Some v)")
    case True
    then obtain es where "find_elements c CSS_SELECTOR sel = Inr es"
      and "first_accepted f es = Inr (Some v)"
      by (auto simp: bind_exn_def split: sum.splits)
    then show ?thesis using first_accepted_Some by fastforce
  next
    case False
    with Cons.prems have "try_selectors f c sels = Some v"
      by (auto split: sum.splits option.splits)
    with Cons.IH show ?thesis by auto
  qed
qed

section \<open>The container locator\<close>

lemma find_append:
  "find P (xs @ ys) = (case find P xs of None \<Rightarrow> find P ys | Some x \<Rightarrow> Some x)"
  by (induction xs) auto

text \<open>
  The loop over the candidates of one selector finds the first qualifying candidate
  among those before the first one whose inspection raises.
\<close>

lemma first_accepted_listing:
  "(case first_accepted listing_container es of
      Inl x \<Rightarrow> None
    | Inr found \<Rightarrow> found) =
   find qualifies (takeWhile (\<lambda>c. \<not> inspection_raises c) es)"
  by (induction es)
     (auto simp: listing_container_def has_title_and_price_def inspection_raises_def
        qualifies_def has_heading_def has_currency_def bind_exn_def
        split: sum.splits list.splits)

lemma try_selectors_listing:
  "try_selectors listing_container driver_page sels =
     find qualifies (concat (map (reached_of driver_page) sels))"
proof (induction sels)
  case Nil
  then show ?case by simp
next
  case (Cons sel sels)
  show ?case
  proof (cases "find_elements driver_page CSS_SELECTOR sel")
    case (Inl x)
    with Cons show ?thesis
      by (simp add: reached_of_def candidates_of_def bind_exn_def)
  next
    case (Inr es)
    have "(case first_accepted listing_container es of Inl x \<Rightarrow> None | Inr found \<Rightarrow> found) =
        find qualifies (reached_of driver_page sel)"
      using Inr by (simp add: first_accepted_listing reached_of_def candidates_of_def)
    with Inr Cons show ?thesis
      by (auto simp: bind_exn_def find_append split: sum.splits option.splits)
  qed
qed

lemma listing_container_Some:
  "listing_container e = Inr (Some c) \<Longrightarrow> c = e \<and> has_heading c \<and> has_currency c"
  by (auto simp: listing_container_def has_title_and_price_def has_heading_def
      has_currency_def bind_exn_def split: sum.splits if_splits list.splits)

lemma reached_of_all:
  "list_all (\<lambda>c. \<not> inspection_raises c) (concat (map (candidates_of driver_page) sels)) \<Longrightarrow>
     concat (map (reached_of driver_page) sels) = concat (map (candidates_of driver_page) sels)"
proof (induction sels)
  case Nil
  then show ?case by simp
next
  case (Cons sel sels)
  from Cons.prems have "reached_of driver_page sel = candidates_of driver_page sel"
    by (simp add: reached_of_def list_all_iff takeWhile_eq_all_conv)
  moreover from Cons have "concat (map (reached_of driver_page) sels) =
      concat (map (candidates_of driver_page) sels)"
    by simp
  ultimately show ?case by simp
qed

text \<open>
  C5, as amended. The locator returns the first candidate that qualifies among the
  candidates it reaches, in the order of the selector list, and the body of the page
  when none of them qualifies; for each selector it reaches the candidates before the
  first one whose inspection raises. When no inspection raises it reaches every
  candidate, so it returns the first of all candidates that qualifies, or the body.
  What it returns is a candidate in which the lookup of a heading and the lookup of an
  element with a currency marker both find an element, or what the lookup of the body
  found.
\<close>

theorem locator_first_reached_candidate:
  "find_main_listing_container driver_page =
     first_qualifying_among (reached driver_page) driver_page \<and>
   (list_all (\<lambda>c. \<not> inspection_raises c) (candidates driver_page) \<longrightarrow>
      find_main_listing_container driver_page =
        first_qualifying_among (candidates driver_page) driver_page) \<and>
   (\<forall>c. find_main_listing_container driver_page = Inr c \<longrightarrow>
      ((\<exists>heading headings.
          find_elements c CSS_SELECTOR heading_selector = Inr (heading # headings)) \<and>
       (\<exists>priced others. find_elements c XPATH dollar_xpath = Inr (priced # others)) \<and>
       c \<in> set (candidates driver_page)) \<or>
      find_element driver_page TAG_NAME ''body'' = Inr c)"
proof (intro conjI allI impI)
  show reached: "find_main_listing_container driver_page =
     first_qualifying_among (reached driver_page) driver_page"
    by (simp add: find_main_listing_container_def first_qualifying_among_def reached_def
        try_selectors_listing)
  assume "list_all (\<lambda>c. \<not> inspection_raises c) (candidates driver_page)"
  then have "reached driver_page = candidates driver_page"
    unfolding reached_def candidates_def by (rule reached_of_all)
  with reached show "find_main_listing_container driver_page =
      first_qualifying_among (candidates driver_page) driver_page"
    by simp
next
  fix c assume c: "find_main_listing_container driver_page = Inr c"
  show "((\<exists>heading headings.
          find_elements c CSS_SELECTOR heading_selector = Inr (heading # headings)) \<and>
       (\<exists>priced others. find_elements c XPATH dollar_xpath = Inr (priced # others)) \<and>
       c \<in> set (candidates driver_page)) \<or>
      find_element driver_page TAG_NAME ''body'' = Inr c"
  proof (cases "try_selectors listing_container driver_page container_selectors")
    case None
    with c show ?thesis by (simp add: find_main_listing_container_def)
  next
    case (Some c')
    with c have "c' = c" by (simp add: find_main_listing_container_def)
    with try_selectors_Some [OF Some] obtain sel es e
      where sel: "sel \<in> set container_selectors"
        and es: "find_elements driver_page CSS_SELECTOR sel = Inr es" "e \<in> set es"
        and e: "listing_container e = Inr (Some c)"
      by blast
    from listing_container_Some [OF e] have "c = e" "has_heading c" "has_currency c"
      by blast+
    moreover from this(2) have "\<exists>heading headings.
        find_elements c CSS_SELECTOR heading_selector = Inr (heading # headings)"
      by (auto simp: has_heading_def split: sum.splits list.splits)
    moreover from \<open>has_currency c\<close> have "\<exists>priced others.
        find_elements c XPATH dollar_xpath = Inr (priced # others)"
      by (auto simp: has_currency_def split: sum.splits list.splits)
    moreover from sel es \<open>c = e\<close> have "c \<in> set (candidates driver_page)"
      by (auto simp: candidates_def candidates_of_def intro!: bexI [of _ sel])
    ultimately show ?thesis by blast
  qed
qed

text \<open>
  On the page with the two tiles and the two listings no inspection raises. Of its five
  candidates the first three lack a heading or a price and the last two qualify; the
  locator returns the first listing. On the page with the two tiles only, no candidate
  qualifies and the locator returns the body.
\<close>

theorem locator_first_reached_candidate_witness:
  "list_all (\<lambda>c. \<not> inspection_raises c) (candidates listing_page) \<and>
   map has_heading (candidates listing_page) = [True, False, False, True, True] \<and>
   map has_currency (candidates listing_page) = [False, True, True, True, True] \<and>
   map qualifies (candidates listing_page) = [False, False, False, True, True] \<and>
   find_main_listing_container listing_page =
     first_qualifying_among (candidates listing_page) listing_page \<and>
   bind_exn (find_main_listing_container listing_page) text_of = Inr ''Red bicycle $120'' \<and>
   list_all (\<lambda>c. \<not> inspection_raises c) (candidates tiles_page) \<and>
   map qualifies (candidates tiles_page) = [False, False] \<and>
   find_main_listing_container tiles_page =
     first_qualifying_among (candidates tiles_page) tiles_page \<and>
   bind_exn (find_main_listing_container tiles_page) text_of = Inr ''everything''"
proof -
  have ok: "list_all (\<lambda>c. \<not> inspection_raises c) (candidates listing_page)"
    "list_all (\<lambda>c. \<not> inspection_raises c) (candidates tiles_page)"
    by code_simp+
  have each: "map has_heading (candidates listing_page) = [True, False, False, True, True]"
    "map has_currency (candidates listing_page) = [False, True, True, True, True]"
    "map qualifies (candidates listing_page) = [False, False, False, True, True]"
    "map qualifies (candidates tiles_page) = [False, False]"
    by code_simp+
  have found: "bind_exn (find_main_listing_container listing_page) text_of =
      Inr ''Red bicycle $120''"
    "bind_exn (find_main_listing_container tiles_page) text_of = Inr ''everything''"
    by code_simp+
  from ok each found locator_first_reached_candidate [of listing_page]
    locator_first_reached_candidate [of tiles_page]
  show ?thesis
    by blast
qed

text \<open>
  C5, as stated, fails. On the page that shows the listing after a stale candidate, the
  listing is a candidate that qualifies, so the first of all candidates that qualifies is
  the listing; the locator returns the body.
\<close>

theorem locator_first_candidate_counterexample:
  "bind_exn (find_main_listing_container stale_page) text_of = Inr ''everything'' \<and>
   bind_exn (first_qualifying_among (candidates stale_page) stale_page) text_of =
     Inr ''Red bicycle $120'' \<and>
   find_main_listing_container stale_page \<noteq>
     first_qualifying_among (candidates stale_page) stale_page"
proof -
  have returned: "bind_exn (find_main_listing_container stale_page) text_of = Inr ''everything''"
    by code_simp
  have first: "bind_exn (first_qualifying_among (candidates stale_page) stale_page) text_of =
      Inr ''Red bicycle $120''"
    by code_simp
  from returned first have "find_main_listing_container stale_page \<noteq>
      first_qualifying_among (candidates stale_page) stale_page"
    by auto
  with returned first show ?thesis by simp
qed

section \<open>The title extractor\<close>

lemma title_candidate_dollars:
  "title_candidate e = Inr (Some t) \<Longrightarrow> dollars t \<le> 1"
  by (auto simp: title_candidate_def stripped_text_def bind_exn_def split: sum.splits if_splits)

lemma title_fallback_candidate_dollars:
  "title_fallback_candidate e = Inr (Some t) \<Longrightarrow> dollars t \<le> 1"
  by (auto simp: title_fallback_candidate_def stripped_text_def bind_exn_def
      split: sum.splits if_splits)

text \<open>The title extractor never returns a text with more than one \<open>$\<close>.\<close>

lemma extract_title_dollars: "dollars (extract_title_from_container c) \<le> 1"
proof (cases "try_selectors title_candidate c title_selectors")
  case (Some t)
  from try_selectors_Some [OF Some] obtain e where "title_candidate e = Inr (Some t)"
    by blast
  then have "dollars t \<le> 1"
    by (rule title_candidate_dollars)
  with Some show ?thesis by (simp add: extract_title_from_container_def)
next
  case None
  show ?thesis
  proof (cases "bind_exn (find_elements c CSS_SELECTOR ''div[dir='auto']'')
                  (first_accepted title_fallback_candidate)")
    case (Inl x)
    with None show ?thesis
      by (simp add: extract_title_from_container_def dollars_simps)
  next
    case (Inr r)
    show ?thesis
    proof (cases r)
      case None': None
      with None Inr show ?thesis
        by (simp add: extract_title_from_container_def dollars_simps)
    next
      case (Some t)
      with Inr obtain es where "first_accepted title_fallback_candidate es = Inr (Some t)"
        by (auto simp: bind_exn_def split: sum.splits)
      from first_accepted_Some [OF this] obtain e
        where "title_fallback_candidate e = Inr (Some t)"
        by blast
      then have "dollars t \<le> 1"
        by (rule title_fallback_candidate_dollars)
      with None Inr Some show ?thesis by (simp add: extract_title_from_container_def)
    qed
  qed
qed

section \<open>The image extractor\<close>








section \<open>The steps of a scrape\<close>

lemma ret_apply: "ret v log = (Inr v, log)"
  by (simp add: ret_def)

lemma call_apply: "call ev r log = (r, log @ [ev])"
  by (simp add: call_def)

lemma sleep_apply: "sleep n log = (Inr (), log @ [Sleep n])"
  by (simp add: sleep_def call_def)

lemma bind_io_apply:
  "bind_io m f log =
     (case m log of (Inl x, log') \<Rightarrow> (Inl x, log') | (Inr v, log') \<Rightarrow> f v log')"
  by (simp add: bind_io_def)

lemma then_io_apply:
  "then_io m k log =
     (case m log of (Inl x, log') \<Rightarrow> (Inl x, log') | (Inr v, log') \<Rightarrow> k log')"
  by (simp add: then_io_def bind_io_def)

lemma scroll_and_wait_apply:
  "\<exists>evs. scroll_and_wait d pass n log = (Inr (), log @ evs) \<and>
         set evs \<subseteq> {Script scroll_bottom, Sleep n, Script scroll_back, Sleep 1}"
  by (cases "execute_script d pass scroll_bottom"; cases "execute_script d pass scroll_back")
     (simp_all add: scroll_and_wait_def then_io_apply call_apply sleep_apply)

lemma wait_for_heading_apply:
  "\<exists>r. wait_for_heading d log = (r, log @ [WaitHeading])"
  by (cases "wait_until d") (simp_all add: wait_for_heading_def call_apply)

lemma load_page_apply:
  "\<exists>r evs. load_page d url log = (r, log @ evs) \<and> set evs \<subseteq> load_events url"
proof -
  obtain r1 where w: "wait_for_heading d (log @ [Get url]) =
      (r1, (log @ [Get url]) @ [WaitHeading])"
    using wait_for_heading_apply by blast
  obtain evs where s: "scroll_and_wait d 0 3 (log @ [Get url, WaitHeading, Sleep 10]) =
      (Inr (), (log @ [Get url, WaitHeading, Sleep 10]) @ evs)"
    and e: "set evs \<subseteq> {Script scroll_bottom, Sleep 3, Script scroll_back, Sleep 1}"
    using scroll_and_wait_apply by blast
  show ?thesis
  proof (cases "get d url")
    case (Inl x)
    then have "load_page d url log = (Inl x, log @ [Get url])"
      by (simp add: load_page_def then_io_apply call_apply)
    then show ?thesis by (auto simp: load_events_def)
  next
    case (Inr u)
    show ?thesis
    proof (cases r1)
      case (Inl x)
      with Inr w have "load_page d url log = (Inl x, log @ [Get url, WaitHeading])"
        by (simp add: load_page_def then_io_apply call_apply)
      then show ?thesis by (auto simp: load_events_def)
    next
      case r1: (Inr v)
      with Inr w s have "load_page d url log =
          (Inr (), log @ [Get url, WaitHeading, Sleep 10] @ evs)"
        by (simp add: load_page_def then_io_apply call_apply sleep_apply)
      with e show ?thesis by (auto simp: load_events_def)
    qed
  qed
qed

text \<open>
  The retry, step by step: it fails when the container cannot be located in the
  document of pass 1, and otherwise replaces exactly the values that are sentinels.
\<close>

lemma retry_apply:
  "\<exists>evs. set evs \<subseteq> load_events url \<and>
     retry d t p l imgs log =
       (case find_main_listing_container (page d 1) of
          Inl e \<Rightarrow> (Inl e, log @ Sleep 5 # evs @ [Locate])
        | Inr c \<Rightarrow>
            (Inr (if t = ''Title not found'' then extract_title_from_container c else t,
                  if p = ''Price not found'' then extract_price_from_container c else p,
                  if l = ''Location not found'' then extract_location_from_container c else l,
                  if imgs = [] then extract_images_from_container c else imgs),
             log @ Sleep 5 # evs @ [Locate] @
               (if t = ''Title not found'' then [ExtractTitle] else []) @
               (if p = ''Price not found'' then [ExtractPrice] else []) @
               (if l = ''Location not found'' then [ExtractLocation] else []) @
               (if imgs = [] then [ExtractImages] else [])))"
proof -
  obtain evs where s: "scroll_and_wait d 1 3 (log @ [Sleep 5]) = (Inr (), (log @ [Sleep 5]) @ evs)"
    and e: "set evs \<subseteq> {Script scroll_bottom, Sleep 3, Script scroll_back, Sleep 1}"
    using scroll_and_wait_apply by blast
  have "retry d t p l imgs log =
       (case find_main_listing_container (page d 1) of
          Inl e \<Rightarrow> (Inl e, log @ Sleep 5 # evs @ [Locate])
        | Inr c \<Rightarrow>
            (Inr (if t = ''Title not found'' then extract_title_from_container c else t,
                  if p = ''Price not found'' then extract_price_from_container c else p,
                  if l = ''Location not found'' then extract_location_from_container c else l,
                  if imgs = [] then extract_images_from_container c else imgs),
             log @ Sleep 5 # evs @ [Locate] @
               (if t = ''Title not found'' then [ExtractTitle] else []) @
               (if p = ''Price not found'' then [ExtractPrice] else []) @
               (if l = ''Location not found'' then [ExtractLocation] else []) @
               (if imgs = [] then [ExtractImages] else [])))"
    using s
    by (cases "find_main_listing_container (page d 1)")
       (simp_all add: retry_def then_io_apply bind_io_apply call_apply sleep_apply ret_apply)
  moreover from e have "set evs \<subseteq> load_events url"
    by (auto simp: load_events_def)
  ultimately show ?thesis by blast
qed

lemma extract_listing_apply:
  "extract_listing d m log =
     (case find_main_listing_container (page d 0) of
        Inl e \<Rightarrow> (Inl e, log @ [Locate])
      | Inr c \<Rightarrow>
          (let t = extract_title_from_container c;
               p = (if m then extract_price_from_container c else ''N/A'');
               l = (if m then extract_location_from_container c else ''N/A'');
               ds = extract_description_from_container c;
               imgs = extract_images_from_container c;
               log1 = log @ [Locate, ExtractTitle] @
                        (if m then [ExtractPrice, ExtractLocation] else []) @
                        [ExtractDescription, ExtractImages]
           in if m \<and> (p = ''Price not found'' \<or> l = ''Location not found'' \<or> imgs = [])
              then (case retry d t p l imgs log1 of
                      (Inl e, log2) \<Rightarrow> (Inl e, log2)
                    | (Inr (t', p', l', imgs'), log2) \<Rightarrow> (Inr (finish t' p' l' ds imgs'), log2))
              else (Inr (finish t p l ds imgs), log1)))"
  by (cases "find_main_listing_container (page d 0)")
     (simp_all add: extract_listing_def bind_io_apply call_apply ret_apply Let_def
        split: sum.splits prod.splits)

section \<open>The paths of a scrape\<close>

text \<open>
  Every run of the \<open>try\<close> block takes one of six paths: the page load raises; the
  container cannot be located; the URL is not a marketplace URL and one pass is made; the
  URL is a marketplace URL, nothing is missing and one pass is made; the retry is entered
  and its locator raises; the retry is entered and completes.
\<close>

lemma scrape_try_cases:
  obtains
    (load_failed) e pre where
      "scrape_try d url [] = (Inl e, pre)"
      "set pre \<subseteq> load_events url"
  | (not_located) e pre where
      "find_main_listing_container (page d 0) = Inl e"
      "scrape_try d url [] = (Inl e, pre @ [Locate])"
      "set pre \<subseteq> load_events url"
  | (post) c pre where
      "\<not> py_in ''marketplace'' url"
      "find_main_listing_container (page d 0) = Inr c"
      "scrape_try d url [] =
         (Inr (finish (extract_title_from_container c) ''N/A'' ''N/A''
                 (extract_description_from_container c) (extract_images_from_container c)),
          pre @ [Locate, ExtractTitle, ExtractDescription, ExtractImages])"
      "set pre \<subseteq> load_events url"
  | (one_pass) c pre where
      "py_in ''marketplace'' url"
      "find_main_listing_container (page d 0) = Inr c"
      "extract_price_from_container c \<noteq> ''Price not found''"
      "extract_location_from_container c \<noteq> ''Location not found''"
      "extract_images_from_container c \<noteq> []"
      "scrape_try d url [] =
         (Inr (finish (extract_title_from_container c) (extract_price_from_container c)
                 (extract_location_from_container c) (extract_description_from_container c)
                 (extract_images_from_container c)),
          pre @ [Locate, ExtractTitle, ExtractPrice, ExtractLocation, ExtractDescription,
                 ExtractImages])"
      "set pre \<subseteq> load_events url"
  | (retry_failed) c e pre evs where
      "py_in ''marketplace'' url"
      "find_main_listing_container (page d 0) = Inr c"
      "extract_price_from_container c = ''Price not found'' \<or>
       extract_location_from_container c = ''Location not found'' \<or>
       extract_images_from_container c = []"
      "find_main_listing_container (page d 1) = Inl e"
      "scrape_try d url [] =
         (Inl e,
          pre @ [Locate, ExtractTitle, ExtractPrice, ExtractLocation, ExtractDescription,
                 ExtractImages] @ Sleep 5 # evs @ [Locate])"
      "set pre \<subseteq> load_events url"
      "set evs \<subseteq> load_events url"
  | (retried) c c' pre evs where
      "py_in ''marketplace'' url"
      "find_main_listing_container (page d 0) = Inr c"
      "extract_price_from_container c = ''Price not found'' \<or>
       extract_location_from_container c = ''Location not found'' \<or>
       extract_images_from_container c = []"
      "find_main_listing_container (page d 1) = Inr c'"
      "scrape_try d url [] =
         (Inr (finish
                 (if extract_title_from_container c = ''Title not found''
                  then extract_title_from_container c' else extract_title_from_container c)
                 (if extract_price_from_container c = ''Price not found''
                  then extract_price_from_container c' else extract_price_from_container c)
                 (if extract_location_from_container c = ''Location not found''
                  then extract_location_from_container c'
                  else extract_location_from_container c)
                 (extract_description_from_container c)
                 (if extract_images_from_container c = []
                  then extract_images_from_container c' else extract_images_from_container c)),
          pre @ [Locate, ExtractTitle, ExtractPrice, ExtractLocation, ExtractDescription,
                 ExtractImages] @ Sleep 5 # evs @ [Locate] @
            (if extract_title_from_container c = ''Title not found'' then [ExtractTitle] else []) @
            (if extract_price_from_container c = ''Price not found'' then [ExtractPrice] else []) @
            (if extract_location_from_container c = ''Location not found''
             then [ExtractLocation] else []) @
            (if extract_images_from_container c = [] then [ExtractImages] else []))"
      "set pre \<subseteq> load_events url"
      "set evs \<subseteq> load_events url"
proof -
  obtain r pre where lp: "load_page d url [] = (r, [] @ pre)"
    and pre: "set pre \<subseteq> load_events url"
    using load_page_apply [of d url "[]"] by blast
  show thesis
  proof (cases r)
    case (Inl e)
    with lp have "scrape_try d url [] = (Inl e, pre)"
      by (simp add: scrape_try_def then_io_apply)
    then show thesis using pre by (rule load_failed)
  next
    case (Inr u)
    with lp have st: "scrape_try d url [] = extract_listing d (py_in ''marketplace'' url) pre"
      by (simp add: scrape_try_def then_io_apply)
    show thesis
    proof (cases "find_main_listing_container (page d 0)")
      case (Inl e)
      then have "scrape_try d url [] = (Inl e, pre @ [Locate])"
        by (simp add: st extract_listing_apply)
      with Inl show thesis using pre by (rule not_located)
    next
      case c: (Inr c)
      show thesis
      proof (cases "py_in ''marketplace'' url")
        case False
        then have "scrape_try d url [] =
         (Inr (finish (extract_title_from_container c) ''N/A'' ''N/A''
                 (extract_description_from_container c) (extract_images_from_container c)),
          pre @ [Locate, ExtractTitle, ExtractDescription, ExtractImages])"
          by (simp add: st extract_listing_apply c)
        with False c show thesis using pre by (rule post)
      next
        case m: True
        show thesis
        proof (cases "extract_price_from_container c = ''Price not found'' \<or>
            extract_location_from_container c = ''Location not found'' \<or>
            extract_images_from_container c = []")
          case False
          then have "scrape_try d url [] =
            (Inr (finish (extract_title_from_container c) (extract_price_from_container c)
                 (extract_location_from_container c) (extract_description_from_container c)
                 (extract_images_from_container c)),
             pre @ [Locate, ExtractTitle, ExtractPrice, ExtractLocation, ExtractDescription,
                 ExtractImages])"
            by (simp add: st extract_listing_apply c m)
          with False m c show thesis using pre by (intro one_pass) simp_all
        next
          case missing: True
          let ?log1 = "pre @ [Locate, ExtractTitle, ExtractPrice, ExtractLocation,
              ExtractDescription, ExtractImages]"
          obtain evs where evs: "set evs \<subseteq> load_events url"
            and rt: "retry d (extract_title_from_container c) (extract_price_from_container c)
              (extract_location_from_container c) (extract_images_from_container c) ?log1 =
              (case find_main_listing_container (page d 1) of
          Inl e \<Rightarrow> (Inl e, ?log1 @ Sleep 5 # evs @ [Locate])
        | Inr c' \<Rightarrow>
            (Inr (if extract_title_from_container c = ''Title not found'' then extract_title_from_container c' else extract_title_from_container c,
                  if extract_price_from_container c = ''Price not found'' then extract_price_from_container c' else extract_price_from_container c,
                  if extract_location_from_container c = ''Location not found'' then extract_location_from_container c' else extract_location_from_container c,
                  if extract_images_from_container c = [] then extract_images_from_container c' else extract_images_from_container c),
             ?log1 @ Sleep 5 # evs @ [Locate] @
               (if extract_title_from_container c = ''Title not found'' then [ExtractTitle] else []) @
               (if extract_price_from_container c = ''Price not found'' then [ExtractPrice] else []) @
               (if extract_location_from_container c = ''Location not found'' then [ExtractLocation] else []) @
               (if extract_images_from_container c = [] then [ExtractImages] else [])))"
            using retry_apply [of url d "extract_title_from_container c"
                "extract_price_from_container c" "extract_location_from_container c"
                "extract_images_from_container c" ?log1]
            by blast
          have st': "scrape_try d url [] =
              (case retry d (extract_title_from_container c) (extract_price_from_container c)
                 (extract_location_from_container c) (extract_images_from_container c) ?log1 of
                 (Inl e, log2) \<Rightarrow> (Inl e, log2)
               | (Inr (t', p', l', imgs'), log2) \<Rightarrow>
                   (Inr (finish t' p' l' (extract_description_from_container c) imgs'), log2))"
            using missing by (simp add: st extract_listing_apply c m)
          show thesis
          proof (cases "find_main_listing_container (page d 1)")
            case (Inl e)
            with rt st' have "scrape_try d url [] = (Inl e, ?log1 @ Sleep 5 # evs @ [Locate])"
              by simp
            then show thesis using m c missing Inl pre evs
              by (intro retry_failed [of c e pre evs]) simp_all
          next
            case c': (Inr c')
            show thesis
              by (rule retried [of c c' pre evs])
                 (use m c missing c' pre evs in \<open>simp_all add: st' rt\<close>)
          qed
        qed
      qed
    qed
  qed
qed

lemma load_events_others:
  assumes "set xs \<subseteq> load_events url"
    and "ev \<in> {Locate, Quit, Sleep 5, ExtractTitle, ExtractPrice, ExtractLocation,
                ExtractDescription, ExtractImages}"
  shows "ev \<notin> set xs" and "count_list xs ev = 0"
proof -
  from assms(2) have "ev \<notin> load_events url"
    by (auto simp: load_events_def)
  with assms(1) show "ev \<notin> set xs" by blast
  then show "count_list xs ev = 0" by (simp add: count_list_0_iff)
qed

lemma success_finish: "success (finish t p l ds imgs)"
  by (simp add: finish_def)

lemma not_success_error: "\<not> success (scrape_error e)" "\<not> success browser_error"
  by (simp_all add: scrape_error_def browser_error_def)

lemma scrape_try_success:
  assumes "scrape_try d url [] = (Inr details, log)"
  shows "success details"
  by (rule scrape_try_cases [of d url]) (use assms in \<open>auto simp: success_finish\<close>)

lemma scrape_try_no_quit: "Quit \<notin> set (snd (scrape_try d url []))"
  by (rule scrape_try_cases [of d url])
     (auto dest: load_events_others(1) [where ev = Quit] split: if_splits)

lemma finish_extracted_title:
  "title (finish (extract_title_from_container c) p l ds imgs) = extract_title_from_container c"
  using extract_title_dollars [of c] by (simp add: finish_def)

lemma finish_title_if:
  "title (finish (if b then extract_title_from_container c' else extract_title_from_container c)
       p l ds imgs) =
   (if b then extract_title_from_container c' else extract_title_from_container c)"
  by (simp add: finish_extracted_title)

lemma finish_fields:
  "price (finish t p l ds imgs) = p"
  "location (finish t p l ds imgs) = l"
  "description (finish t p l ds imgs) = ds"
  "image_url (finish t p l ds imgs) = (case imgs of [] \<Rightarrow> None | u # us \<Rightarrow> Some u)"
  "success (finish t p l ds imgs) = True"
  by (simp_all add: finish_def)

text \<open>The example browsers, run.\<close>

lemma setup_world_with: "setup_webdriver (world_with d) = Some d"
  by (simp add: setup_webdriver_def world_with_def)

lemma setup_no_browser: "setup_webdriver no_browser = None"
  by (simp add: setup_webdriver_def no_browser_def)

lemma example_retry:
  "scrape_facebook_marketplace (world_with example_driver) item_url =
   (\<lparr> title = ''Red bicycle, barely used'', price = ''$120'', location = ''Austin, TX'',
       description = ''Description not found'', image_url = None, success = True \<rparr>,
    [Get item_url, WaitHeading, Sleep 10,
     Script scroll_bottom, Sleep 3, Script scroll_back, Sleep 1,
     Locate, ExtractTitle, ExtractPrice, ExtractLocation, ExtractDescription, ExtractImages,
     Sleep 5, Script scroll_bottom, Sleep 3, Script scroll_back, Sleep 1,
     Locate, ExtractLocation, ExtractImages, Quit])"
  by code_simp

lemma example_post:
  "scrape_facebook_marketplace (world_with example_driver) share_url =
   (\<lparr> title = ''Red bicycle, barely used'', price = ''N/A'', location = ''N/A'',
       description = ''Description not found'', image_url = None, success = True \<rparr>,
    [Get share_url, WaitHeading, Sleep 10,
     Script scroll_bottom, Sleep 3, Script scroll_back, Sleep 1,
     Locate, ExtractTitle, ExtractDescription, ExtractImages, Quit])"
  by code_simp

lemma example_broken:
  "scrape_facebook_marketplace (world_with broken_driver) item_url =
   (scrape_error (Exn WebDriverException ''net::ERR_NAME_NOT_RESOLVED''), [Get item_url, Quit])"
  by code_simp

lemma example_no_browser:
  "scrape_facebook_marketplace no_browser item_url = (browser_error, [])"
  by code_simp

section \<open>The browser session is released\<close>

text \<open>
  C1. When the browser session was created, the calls of the scrape are the calls of the
  \<open>try\<close> block, whichever way it ended (a record returned after one pass or after the
  retry, or an exception), followed by one call of \<open>quit\<close>; the \<open>try\<close> block itself
  never calls \<open>quit\<close>, so \<open>quit\<close> is called exactly once, last. When no session was
  created \<open>quit\<close> is not called.
\<close>

theorem session_released_once:
  "(setup_webdriver w = None \<longrightarrow> Quit \<notin> set (snd (scrape_facebook_marketplace w url))) \<and>
   (\<forall>d. setup_webdriver w = Some d \<longrightarrow>
      snd (scrape_facebook_marketplace w url) = snd (scrape_try d url []) @ [Quit] \<and>
      Quit \<notin> set (snd (scrape_try d url [])) \<and>
      count_list (snd (scrape_facebook_marketplace w url)) Quit = 1)"
proof (intro conjI allI impI)
  assume "setup_webdriver w = None"
  then show "Quit \<notin> set (snd (scrape_facebook_marketplace w url))"
    by (simp add: scrape_facebook_marketplace_def)
next
  fix d assume d: "setup_webdriver w = Some d"
  then show eq: "snd (scrape_facebook_marketplace w url) = snd (scrape_try d url []) @ [Quit]"
    by (simp add: scrape_facebook_marketplace_def split: prod.splits sum.splits)
  show nq: "Quit \<notin> set (snd (scrape_try d url []))"
    by (rule scrape_try_no_quit)
  from nq show "count_list (snd (scrape_facebook_marketplace w url)) Quit = 1"
    by (simp add: eq count_list_0_iff)
qed

text \<open>
  The session is released once when the navigation raises and when the retry runs, and
  not at all when the browser did not start.
\<close>

theorem session_released_once_witness:
  "setup_webdriver (world_with broken_driver) = Some broken_driver \<and>
   snd (scrape_facebook_marketplace (world_with broken_driver) item_url) =
     [Get item_url, Quit] \<and>
   count_list (snd (scrape_facebook_marketplace (world_with broken_driver) item_url)) Quit = 1 \<and>
   setup_webdriver (world_with example_driver) = Some example_driver \<and>
   Sleep 5 \<in> set (snd (scrape_facebook_marketplace (world_with example_driver) item_url)) \<and>
   count_list (snd (scrape_facebook_marketplace (world_with example_driver) item_url)) Quit = 1 \<and>
   setup_webdriver no_browser = None \<and>
   Quit \<notin> set (snd (scrape_facebook_marketplace no_browser item_url))"
  using session_released_once [of "world_with broken_driver" item_url]
    session_released_once [of "world_with example_driver" item_url]
    session_released_once [of no_browser item_url]
  by (simp add: setup_world_with setup_no_browser example_broken example_retry)

section \<open>The error records\<close>

text \<open>
  C2. A record returned without \<open>success\<close> is one of the two error records: it has no
  image URL and a description that says what failed. An exception raised in the \<open>try\<close>
  block is turned into the second error record, and a browser that does not start into
  the first, so the function returns a record on every path. The reply built from a
  record without \<open>success\<close> is the error embed, whatever the fields of the record: its
  only field is the link, and it has no image.
\<close>

theorem failed_scrape_is_error_record:
  "(\<not> success (fst (scrape_facebook_marketplace w url)) \<longrightarrow>
      image_url (fst (scrape_facebook_marketplace w url)) = None \<and>
      description (fst (scrape_facebook_marketplace w url)) \<noteq> [] \<and>
      (fst (scrape_facebook_marketplace w url) = browser_error \<or>
       (\<exists>e. fst (scrape_facebook_marketplace w url) = scrape_error e)) \<and>
      reply_embed fb_url author ts (fst (scrape_facebook_marketplace w url)) =
        error_embed fb_url ts) \<and>
   (setup_webdriver w = None \<longrightarrow> fst (scrape_facebook_marketplace w url) = browser_error) \<and>
   (\<forall>d e log. setup_webdriver w = Some d \<and> scrape_try d url [] = (Inl e, log) \<longrightarrow>
      fst (scrape_facebook_marketplace w url) = scrape_error e) \<and>
   embed_fields (error_embed fb_url ts) = [(''Link'', fb_url, False)] \<and>
   embed_image (error_embed fb_url ts) = None"
proof -
  have "fst (scrape_facebook_marketplace w url) = browser_error \<or>
      (\<exists>e. fst (scrape_facebook_marketplace w url) = scrape_error e) \<or>
      success (fst (scrape_facebook_marketplace w url))"
    by (auto simp: scrape_facebook_marketplace_def scrape_try_success
        split: option.splits prod.splits sum.splits)
  then show ?thesis
    by (auto simp: scrape_facebook_marketplace_def reply_embed_def error_embed_def
        scrape_error_def browser_error_def)
qed

theorem failed_scrape_is_error_record_witness:
  "\<not> success (fst (scrape_facebook_marketplace no_browser item_url)) \<and>
   fst (scrape_facebook_marketplace no_browser item_url) = browser_error \<and>
   image_url (fst (scrape_facebook_marketplace no_browser item_url)) = None \<and>
   reply_embed item_url ''Al'' 0 (fst (scrape_facebook_marketplace no_browser item_url)) =
     error_embed item_url 0 \<and>
   \<not> success (fst (scrape_facebook_marketplace (world_with broken_driver) item_url)) \<and>
   description (fst (scrape_facebook_marketplace (world_with broken_driver) item_url)) =
     ''Could not retrieve listing details. Error: net::ERR_NAME_NOT_RESOLVED''"
  using failed_scrape_is_error_record [of no_browser item_url item_url "''Al''" 0]
    failed_scrape_is_error_record [of "world_with broken_driver" item_url item_url "''Al''" 0]
  by (simp add: example_no_browser example_broken not_success_error scrape_error_def)

section \<open>The retry\<close>

text \<open>
  C4. A scrape locates the container at most twice and sleeps the five seconds of the
  retry at most once. The retry is entered only for a marketplace URL for which the first
  pass left the price, the location or the images missing. In a record returned with
  \<open>success\<close> the description is the one of the first pass, and each of title, price,
  location and image that the first pass found is the one of the first pass. When the
  retry was entered, the container was located again in the document shown then, each
  of the four values that was missing is the one extracted from that container, and the
  extractor of a field was called a second time exactly when the field was missing; the
  description extractor was called once.
\<close>

theorem at_most_one_retry:
  assumes "setup_webdriver w = Some d"
    and "scrape_facebook_marketplace w url = (r, log)"
  shows
   "count_list log Locate \<le> 2 \<and> count_list log (Sleep 5) \<le> 1 \<and>
    (Sleep 5 \<in> set log \<longrightarrow>
       py_in ''marketplace'' url \<and>
       (\<exists>c. find_main_listing_container (page d 0) = Inr c \<and>
            (extract_price_from_container c = ''Price not found'' \<or>
             extract_location_from_container c = ''Location not found'' \<or>
             extract_images_from_container c = []))) \<and>
    (success r \<longrightarrow>
       (\<exists>c. find_main_listing_container (page d 0) = Inr c \<and>
          description r = extract_description_from_container c \<and>
          count_list log ExtractDescription = 1 \<and>
          (extract_title_from_container c \<noteq> ''Title not found'' \<longrightarrow>
             title r = extract_title_from_container c) \<and>
          (py_in ''marketplace'' url \<and> extract_price_from_container c \<noteq> ''Price not found'' \<longrightarrow>
             price r = extract_price_from_container c) \<and>
          (py_in ''marketplace'' url \<and>
           extract_location_from_container c \<noteq> ''Location not found'' \<longrightarrow>
             location r = extract_location_from_container c) \<and>
          (extract_images_from_container c \<noteq> [] \<longrightarrow>
             image_url r = (case extract_images_from_container c of
                              [] \<Rightarrow> None | u # us \<Rightarrow> Some u)) \<and>
          (Sleep 5 \<notin> set log \<longrightarrow>
             count_list log Locate = 1 \<and>
             title r = extract_title_from_container c \<and>
             count_list log ExtractTitle = 1 \<and>
             count_list log ExtractPrice \<le> 1 \<and>
             count_list log ExtractLocation \<le> 1 \<and>
             count_list log ExtractImages = 1) \<and>
          (Sleep 5 \<in> set log \<longrightarrow>
             (\<exists>c'. find_main_listing_container (page d 1) = Inr c' \<and>
                count_list log Locate = 2 \<and>
                (extract_title_from_container c = ''Title not found'' \<longrightarrow>
                   title r = extract_title_from_container c') \<and>
                (extract_price_from_container c = ''Price not found'' \<longrightarrow>
                   price r = extract_price_from_container c') \<and>
                (extract_location_from_container c = ''Location not found'' \<longrightarrow>
                   location r = extract_location_from_container c') \<and>
                (extract_images_from_container c = [] \<longrightarrow>
                   image_url r = (case extract_images_from_container c' of
                                    [] \<Rightarrow> None | u # us \<Rightarrow> Some u)) \<and>
                count_list log ExtractTitle =
                  (if extract_title_from_container c = ''Title not found'' then 2 else 1) \<and>
                count_list log ExtractPrice =
                  (if extract_price_from_container c = ''Price not found'' then 2 else 1) \<and>
                count_list log ExtractLocation =
                  (if extract_location_from_container c = ''Location not found'' then 2 else 1) \<and>
                count_list log ExtractImages =
                  (if extract_images_from_container c = [] then 2 else 1)))))"
proof (rule scrape_try_cases [of d url])
  fix e pre
  assume "scrape_try d url [] = (Inl e, pre)" "set pre \<subseteq> load_events url"
  then show ?thesis using assms
    by (auto simp: scrape_facebook_marketplace_def not_success_error load_events_others)
next
  fix e pre
  assume "scrape_try d url [] = (Inl e, pre @ [Locate])" "set pre \<subseteq> load_events url"
  then show ?thesis using assms
    by (auto simp: scrape_facebook_marketplace_def not_success_error load_events_others)
next
  fix c pre
  assume "\<not> py_in ''marketplace'' url"
    "find_main_listing_container (page d 0) = Inr c"
    "scrape_try d url [] =
         (Inr (finish (extract_title_from_container c) ''N/A'' ''N/A''
                 (extract_description_from_container c) (extract_images_from_container c)),
          pre @ [Locate, ExtractTitle, ExtractDescription, ExtractImages])"
    "set pre \<subseteq> load_events url"
  moreover from this assms have "title r = extract_title_from_container c"
    by (auto simp only: scrape_facebook_marketplace_def finish_extracted_title
        option.case prod.case sum.case fst_conv snd_conv prod.inject)
  ultimately show ?thesis using assms
    by (auto simp: scrape_facebook_marketplace_def finish_fields load_events_others
        simp del: One_nat_def)
next
  fix c pre
  assume "py_in ''marketplace'' url"
    "find_main_listing_container (page d 0) = Inr c"
    "extract_price_from_container c \<noteq> ''Price not found''"
    "extract_location_from_container c \<noteq> ''Location not found''"
    "extract_images_from_container c \<noteq> []"
    "scrape_try d url [] =
         (Inr (finish (extract_title_from_container c) (extract_price_from_container c)
                 (extract_location_from_container c) (extract_description_from_container c)
                 (extract_images_from_container c)),
          pre @ [Locate, ExtractTitle, ExtractPrice, ExtractLocation, ExtractDescription,
                 ExtractImages])"
    "set pre \<subseteq> load_events url"
  moreover from this assms have "title r = extract_title_from_container c"
    by (auto simp only: scrape_facebook_marketplace_def finish_extracted_title
        option.case prod.case sum.case fst_conv snd_conv prod.inject)
  ultimately show ?thesis using assms
    by (auto simp: scrape_facebook_marketplace_def finish_fields load_events_others)
next
  fix c e pre evs
  assume "py_in ''marketplace'' url"
    "find_main_listing_container (page d 0) = Inr c"
    "extract_price_from_container c = ''Price not found'' \<or>
       extract_location_from_container c = ''Location not found'' \<or>
       extract_images_from_container c = []"
    "scrape_try d url [] =
         (Inl e,
          pre @ [Locate, ExtractTitle, ExtractPrice, ExtractLocation, ExtractDescription,
                 ExtractImages] @ Sleep 5 # evs @ [Locate])"
    "set pre \<subseteq> load_events url"
    "set evs \<subseteq> load_events url"
  then show ?thesis using assms
    by (auto simp: scrape_facebook_marketplace_def not_success_error load_events_others)
next
  fix c c' pre evs
  assume m: "py_in ''marketplace'' url"
    and c: "find_main_listing_container (page d 0) = Inr c"
    and missing: "extract_price_from_container c = ''Price not found'' \<or>
       extract_location_from_container c = ''Location not found'' \<or>
       extract_images_from_container c = []"
    and c': "find_main_listing_container (page d 1) = Inr c'"
    and st: "scrape_try d url [] =
         (Inr (finish
                 (if extract_title_from_container c = ''Title not found''
                  then extract_title_from_container c' else extract_title_from_container c)
                 (if extract_price_from_container c = ''Price not found''
                  then extract_price_from_container c' else extract_price_from_container c)
                 (if extract_location_from_container c = ''Location not found''
                  then extract_location_from_container c'
                  else extract_location_from_container c)
                 (extract_description_from_container c)
                 (if extract_images_from_container c = []
                  then extract_images_from_container c' else extract_images_from_container c)),
          pre @ [Locate, ExtractTitle, ExtractPrice, ExtractLocation, ExtractDescription,
                 ExtractImages] @ Sleep 5 # evs @ [Locate] @
            (if extract_title_from_container c = ''Title not found'' then [ExtractTitle] else []) @
            (if extract_price_from_container c = ''Price not found'' then [ExtractPrice] else []) @
            (if extract_location_from_container c = ''Location not found''
             then [ExtractLocation] else []) @
            (if extract_images_from_container c = [] then [ExtractImages] else []))"
    and pre: "set pre \<subseteq> load_events url"
    and evs: "set evs \<subseteq> load_events url"
  from st assms have r: "r = finish
                 (if extract_title_from_container c = ''Title not found''
                  then extract_title_from_container c' else extract_title_from_container c)
                 (if extract_price_from_container c = ''Price not found''
                  then extract_price_from_container c' else extract_price_from_container c)
                 (if extract_location_from_container c = ''Location not found''
                  then extract_location_from_container c'
                  else extract_location_from_container c)
                 (extract_description_from_container c)
                 (if extract_images_from_container c = []
                  then extract_images_from_container c' else extract_images_from_container c)"
    and log: "log = pre @ [Locate, ExtractTitle, ExtractPrice, ExtractLocation, ExtractDescription,
                 ExtractImages] @ Sleep 5 # evs @ [Locate] @
            (if extract_title_from_container c = ''Title not found'' then [ExtractTitle] else []) @
            (if extract_price_from_container c = ''Price not found'' then [ExtractPrice] else []) @
            (if extract_location_from_container c = ''Location not found''
             then [ExtractLocation] else []) @
            (if extract_images_from_container c = [] then [ExtractImages] else []) @ [Quit]"
    by (simp_all add: scrape_facebook_marketplace_def)
  have counts: "count_list log Locate = 2" "count_list log (Sleep 5) = 1"
    "count_list log ExtractDescription = 1"
    "count_list log ExtractTitle =
                  (if extract_title_from_container c = ''Title not found'' then 2 else 1)"
    "count_list log ExtractPrice =
                  (if extract_price_from_container c = ''Price not found'' then 2 else 1)"
    "count_list log ExtractLocation =
                  (if extract_location_from_container c = ''Location not found'' then 2 else 1)"
    "count_list log ExtractImages =
                  (if extract_images_from_container c = [] then 2 else 1)"
    "Sleep 5 \<in> set log"
    using pre evs by (simp_all add: log load_events_others)
  have fields: "description r = extract_description_from_container c"
    "title r = (if extract_title_from_container c = ''Title not found''
                  then extract_title_from_container c' else extract_title_from_container c)"
    "price r = (if extract_price_from_container c = ''Price not found''
                  then extract_price_from_container c' else extract_price_from_container c)"
    "location r = (if extract_location_from_container c = ''Location not found''
                  then extract_location_from_container c'
                  else extract_location_from_container c)"
    "image_url r = (case (if extract_images_from_container c = []
                  then extract_images_from_container c' else extract_images_from_container c) of
                    [] \<Rightarrow> None | u # us \<Rightarrow> Some u)"
    unfolding r by (simp_all only: finish_fields finish_title_if)
  show ?thesis
    using m c c' missing counts fields by simp
qed

text \<open>
  The example browser shows a title and a price at first and another title, another price
  and a location at the retry: the record has the first title and price and the second
  location.
\<close>

theorem at_most_one_retry_witness:
  "setup_webdriver (world_with example_driver) = Some example_driver \<and>
   count_list (snd (scrape_facebook_marketplace (world_with example_driver) item_url)) Locate = 2 \<and>
   count_list (snd (scrape_facebook_marketplace (world_with example_driver) item_url)) (Sleep 5) = 1 \<and>
   title (fst (scrape_facebook_marketplace (world_with example_driver) item_url)) =
     ''Red bicycle, barely used'' \<and>
   price (fst (scrape_facebook_marketplace (world_with example_driver) item_url)) = ''$120'' \<and>
   location (fst (scrape_facebook_marketplace (world_with example_driver) item_url)) =
     ''Austin, TX''"
  using at_most_one_retry [OF setup_world_with example_retry]
  by (simp add: setup_world_with example_retry)

section \<open>URLs that are not marketplace URLs\<close>

text \<open>
  C10. For a URL without the substring \<open>marketplace\<close> the price and location extractors
  are never called, the retry is never entered and the container is located at most once.
  A record returned with \<open>success\<close> has \<open>N/A\<close> as its price and as its location, and was
  made by one pass: one call of the locator and one of each of the other extractors.
\<close>

theorem post_url_single_pass:
  assumes "\<not> py_in ''marketplace'' url"
  shows "ExtractPrice \<notin> set (snd (scrape_facebook_marketplace w url)) \<and>
    ExtractLocation \<notin> set (snd (scrape_facebook_marketplace w url)) \<and>
    Sleep 5 \<notin> set (snd (scrape_facebook_marketplace w url)) \<and>
    count_list (snd (scrape_facebook_marketplace w url)) Locate \<le> 1 \<and>
    (success (fst (scrape_facebook_marketplace w url)) \<longrightarrow>
       price (fst (scrape_facebook_marketplace w url)) = ''N/A'' \<and>
       location (fst (scrape_facebook_marketplace w url)) = ''N/A'' \<and>
       count_list (snd (scrape_facebook_marketplace w url)) Locate = 1 \<and>
       count_list (snd (scrape_facebook_marketplace w url)) ExtractTitle = 1 \<and>
       count_list (snd (scrape_facebook_marketplace w url)) ExtractDescription = 1 \<and>
       count_list (snd (scrape_facebook_marketplace w url)) ExtractImages = 1)"
proof (cases "setup_webdriver w")
  case None
  then show ?thesis
    by (simp add: scrape_facebook_marketplace_def not_success_error)
next
  case (Some d)
  show ?thesis
  proof (rule scrape_try_cases [of d url])
    fix e pre
    assume "scrape_try d url [] = (Inl e, pre)" "set pre \<subseteq> load_events url"
    then show ?thesis using Some
      by (simp add: scrape_facebook_marketplace_def not_success_error load_events_others)
  next
    fix e pre
    assume "scrape_try d url [] = (Inl e, pre @ [Locate])" "set pre \<subseteq> load_events url"
    then show ?thesis using Some
      by (simp add: scrape_facebook_marketplace_def not_success_error load_events_others)
  next
    fix c pre
    assume "scrape_try d url [] =
         (Inr (finish (extract_title_from_container c) ''N/A'' ''N/A''
                 (extract_description_from_container c) (extract_images_from_container c)),
          pre @ [Locate, ExtractTitle, ExtractDescription, ExtractImages])"
      "set pre \<subseteq> load_events url"
    then show ?thesis using Some
      by (simp add: scrape_facebook_marketplace_def finish_fields load_events_others)
  qed (use assms in simp_all)
qed

theorem post_url_single_pass_witness:
  "\<not> py_in ''marketplace'' share_url \<and>
   success (fst (scrape_facebook_marketplace (world_with example_driver) share_url)) \<and>
   price (fst (scrape_facebook_marketplace (world_with example_driver) share_url)) = ''N/A'' \<and>
   location (fst (scrape_facebook_marketplace (world_with example_driver) share_url)) = ''N/A'' \<and>
   count_list (snd (scrape_facebook_marketplace (world_with example_driver) share_url)) Locate = 1 \<and>
   ExtractPrice \<notin> set (snd (scrape_facebook_marketplace (world_with example_driver) share_url))"
proof -
  have post: "\<not> py_in ''marketplace'' share_url"
    by code_simp
  from post_url_single_pass [OF post, of "world_with example_driver"] post show ?thesis
    by (simp add: example_post)
qed

section \<open>The presenter\<close>

text \<open>
  C6. The title of the record never has more than one \<open>$\<close>. A title with more than
  one \<open>$\<close> that reaches the post-processing validation is replaced by
  \<open>Facebook Marketplace Listing\<close> in the record, and this is the title of the reply
  built from the record; so it is for the title of the scenario. (The title extractor
  itself never returns such a title, see \<open>extract_title_dollars\<close>.)
\<close>

theorem multi_price_title_replaced:
  "dollars (title (finish t p l ds imgs)) \<le> 1 \<and>
   (1 < dollars t \<longrightarrow>
      title (finish t p l ds imgs) = ''Facebook Marketplace Listing'' \<and>
      embed_title (reply_embed fb_url author ts (finish t p l ds imgs)) =
        ''Facebook Marketplace Listing'') \<and>
   title (finish ''iPhone 13 Pro - $600 - $650 (bundle)'' p l ds imgs) =
     ''Facebook Marketplace Listing'' \<and>
   embed_title (reply_embed fb_url author ts
       (finish ''iPhone 13 Pro - $600 - $650 (bundle)'' p l ds imgs)) =
     ''Facebook Marketplace Listing''"
proof -
  have shown: "shown_title fb_url ''Facebook Marketplace Listing'' = ''Facebook Marketplace Listing''"
    by (simp add: shown_title_def startswith_def)
  have general: "title (finish t' p l ds imgs) = ''Facebook Marketplace Listing'' \<and>
      embed_title (reply_embed fb_url author ts (finish t' p l ds imgs)) =
        ''Facebook Marketplace Listing''" if "1 < dollars t'" for t'
    using that shown by (simp add: finish_def reply_embed_def listing_embed_def Let_def)
  have "1 < dollars ''iPhone 13 Pro - $600 - $650 (bundle)''"
    by (simp add: dollars_simps)
  moreover have "dollars (title (finish t p l ds imgs)) \<le> 1"
    by (simp add: finish_def dollars_simps)
  ultimately show ?thesis
    using general [of "''iPhone 13 Pro - $600 - $650 (bundle)''"] general [of t]
    by blast
qed

theorem multi_price_title_replaced_witness:
  "1 < dollars ''Lamp $5 Chair $10'' \<and>
   title (finish ''Lamp $5 Chair $10'' ''$5'' ''Austin, TX'' ''Two things'' []) =
     ''Facebook Marketplace Listing'' \<and>
   embed_title (reply_embed share_url ''Al'' 0
       (finish ''Lamp $5 Chair $10'' ''$5'' ''Austin, TX'' ''Two things'' [])) =
     ''Facebook Marketplace Listing''"
  using multi_price_title_replaced
    [of "''Lamp $5 Chair $10''" "''$5''" "''Austin, TX''" "''Two things''" "[]" share_url "''Al''" 0]
  by (simp add: dollars_simps)

text \<open>
  C8. The price the presenter shows never has more than one \<open>$\<close>: a price with more
  than one is replaced by \<open>Not listed\<close>. The price field of the embed of a listing holds
  the price shown, and so no price field of an embed sent by the handler has more than
  one \<open>$\<close>.
\<close>

theorem shown_price_single_marker:
  "dollars (shown_price p) \<le> 1 \<and>
   (1 < dollars p \<longrightarrow> shown_price p = ''Not listed'') \<and>
   (\<forall>name v inline.
      (name, v, inline) \<in> set (embed_fields (listing_embed fb_url author ts details)) \<and>
      name = price_field \<longrightarrow>
        v = shown_price (price details) \<and> dollars v \<le> 1) \<and>
   (\<forall>e name v inline.
      SendEmbed e \<in> set (fst (on_message w CHANNEL_ID message)) \<and>
      (name, v, inline) \<in> set (embed_fields e) \<and> name = price_field \<longrightarrow>
        dollars v \<le> 1)"
proof -
  have shown: "dollars (shown_price q) \<le> 1" for q
    by (simp add: shown_price_def Let_def dollars_simps)
  have listed: "v = shown_price (price r) \<and> dollars v \<le> 1"
    if "(name, v, inline) \<in> set (embed_fields (listing_embed u a n r))" "name = price_field"
    for name v inline u a n r
    using that shown [of "price r"]
    by (auto simp: listing_embed_def Let_def price_field_def location_field_def
        description_field_def split: if_splits)
  have replied: "dollars v \<le> 1"
    if "(name, v, inline) \<in> set (embed_fields (reply_embed u a n r))" "name = price_field"
    for name v inline u a n r
  proof (cases "success r")
    case True
    with that listed show ?thesis by (simp add: reply_embed_def)
  next
    case False
    with that show ?thesis by (simp add: reply_embed_def error_embed_def price_field_def)
  qed
  have sent: "dollars v \<le> 1"
    if "SendEmbed e \<in> set (fst (on_message w CHANNEL_ID message))"
      "(name, v, inline) \<in> set (embed_fields e)" "name = price_field"
    for e name v inline
    using that replied
    by (auto simp: on_message_def split: if_splits option.splits prod.splits)
  show ?thesis
  proof (intro conjI)
    show "dollars (shown_price p) \<le> 1"
      by (rule shown)
    show "1 < dollars p \<longrightarrow> shown_price p = ''Not listed''"
      by (simp add: shown_price_def Let_def dollars_simps)
    show "\<forall>name v inline.
      (name, v, inline) \<in> set (embed_fields (listing_embed fb_url author ts details)) \<and>
      name = price_field \<longrightarrow>
        v = shown_price (price details) \<and> dollars v \<le> 1"
      using listed by blast
    show "\<forall>e name v inline.
      SendEmbed e \<in> set (fst (on_message w CHANNEL_ID message)) \<and>
      (name, v, inline) \<in> set (embed_fields e) \<and> name = price_field \<longrightarrow>
        dollars v \<le> 1"
      using sent by blast
  qed
qed

theorem shown_price_single_marker_witness:
  "1 < dollars ''$50 $60'' \<and> shown_price ''$50 $60'' = ''Not listed'' \<and>
   shown_price ''$50'' = ''$50''"
proof -
  have "shown_price ''$50'' = ''$50''"
    by (simp add: shown_price_def dollars_simps)
  with shown_price_single_marker [of "''$50 $60''"] show ?thesis
    by (simp add: dollars_simps)
qed

text \<open>
  C9. A description longer than 1024 characters is shortened to exactly 1024 characters:
  its first 1021 characters and three dots. A description of at most 1024 characters is
  left as it is. The description field of the embed and the description of the embed,
  when there is one, hold the cleaned description shortened in this way.
\<close>

theorem long_description_shortened:
  "(1024 < length d \<longrightarrow>
      shorten d = take 1021 d @ ''...'' \<and> length (shorten d) = 1024) \<and>
   (length d \<le> 1024 \<longrightarrow> shorten d = d) \<and>
   (\<forall>name v inline.
      (name, v, inline) \<in> set (embed_fields (listing_embed fb_url author ts details)) \<and>
      name = description_field \<longrightarrow>
        v = shorten (cleaned_description (description details))) \<and>
   (\<forall>v. embed_description (listing_embed fb_url author ts details) = Some v \<longrightarrow>
        v = shorten (cleaned_description (description details)))"
  by (auto simp: shorten_def listing_embed_def Let_def shown_description_def
      price_field_def location_field_def description_field_def split: if_splits)

theorem long_description_shortened_witness:
  "1024 < length (replicate 1030 CHR ''a'') \<and>
   shorten (replicate 1030 CHR ''a'') = replicate 1021 CHR ''a'' @ ''...'' \<and>
   length (shorten (replicate 1030 CHR ''a'')) = 1024 \<and>
   shorten ''short'' = ''short''"
  using long_description_shortened [of "replicate 1030 CHR ''a''"]
    long_description_shortened [of "''short''"]
  by simp

end
